theory Spec2Isabelle
  imports Main "HOL-Library.AList"
begin

section \<open>JavaScript values\<close>

text \<open>
  The library in \<^verbatim>\<open>src/react.js\<close> is dynamically typed: a vnode is any JavaScript value,
  and the classifiers decide by \<^verbatim>\<open>typeof\<close>, \<^verbatim>\<open>Array.isArray\<close> and truthiness what it
  is. The embedding therefore works on a datatype of JavaScript values.

  \<^item> Numbers are modelled by \<open>int\<close> (integer-valued doubles; no \<^verbatim>\<open>NaN\<close>, no fractions).
    Strings are lists of characters; their \<^verbatim>\<open>length\<close> is the number of characters.
  \<^item> A plain object is the list of its own enumerable properties in the order they
    were added (JavaScript lists keys that are array indices first; the model does
    not move them); an array is the list of its elements.
  \<^item> Objects are modelled by value: two references to one object are two equal
    values, and a mutation through one reference is not seen through the other.
  \<^item> A function object is a reference: \<open>Caller i\<close> is a function supplied by the
    caller, \<open>RenderString\<close> is the library's own \<^verbatim>\<open>renderString\<close>, which the library
    passes around as a value. What a function does when it is called, and the
    \<^verbatim>\<open>name\<close>, the \<^verbatim>\<open>length\<close>, the own properties (such as \<^verbatim>\<open>defaultProps\<close>) and the
    source text of a function of the caller, are inputs, gathered in the record
    \<open>env\<close>. So is the global variable \<^verbatim>\<open>props\<close>, if there is one.
  \<^item> \<open>JNode\<close> is a handle to a node of the rendering target (the DOM).
\<close>

datatype fn_ref = Caller nat | RenderString

datatype jsval =
    JUndefined
  | JNull
  | JBool bool
  | JNum int
  | JStr string
  | JArr "jsval list"
  | JObj "(string \<times> jsval) list"
  | JFun fn_ref
  | JNode nat

text \<open>
  What a call can end in: a value, an exception, or no end at all (\<open>Diverge\<close>: the
  recursion ran out of fuel). The exceptions are the ones raised on the paths of this
  file: the TypeError of reading or writing a property of \<^verbatim>\<open>null\<close> or \<^verbatim>\<open>undefined\<close>
  (\<open>NullDereference\<close>), the TypeError of calling what is not a function
  (\<open>NotCallable\<close>), the TypeError of passing \<^verbatim>\<open>appendChild\<close> what is not a node
  (\<open>NotANode\<close>), the ReferenceError of an unbound identifier, the DOM's
  HierarchyRequestError, and a value thrown by a function of the caller.
\<close>

datatype error =
    NullDereference
  | NotCallable
  | NotANode
  | ReferenceError string
  | HierarchyRequestError
  | Thrown jsval

datatype 'a res = Ok 'a | Err error | Diverge

record env =
  call :: "fn_ref \<Rightarrow> jsval list \<Rightarrow> jsval res"
  fn_own :: "nat \<Rightarrow> (string \<times> jsval) list"
  fn_name :: "nat \<Rightarrow> string"
  fn_length :: "nat \<Rightarrow> nat"
  fn_source :: "fn_ref \<Rightarrow> string"
  global_props :: "jsval option"

fun bindR :: "'a res \<Rightarrow> ('a \<Rightarrow> 'b res) \<Rightarrow> 'b res" where
  "bindR (Ok x) f = f x"
| "bindR (Err e) f = Err e"
| "bindR Diverge f = Diverge"

fun mapR :: "('a \<Rightarrow> 'b res) \<Rightarrow> 'a list \<Rightarrow> 'b list res" where
  "mapR f [] = Ok []"
| "mapR f (x # xs) = bindR (f x) (\<lambda>y. bindR (mapR f xs) (\<lambda>ys. Ok (y # ys)))"

subsection \<open>typeof, truthiness, the logical operators\<close>

fun typeof :: "jsval \<Rightarrow> string" where
  "typeof JUndefined = ''undefined''"
| "typeof JNull = ''object''"
| "typeof (JBool b) = ''boolean''"
| "typeof (JNum n) = ''number''"
| "typeof (JStr s) = ''string''"
| "typeof (JArr xs) = ''object''"
| "typeof (JObj ps) = ''object''"
| "typeof (JFun f) = ''function''"
| "typeof (JNode n) = ''object''"

fun truthy :: "jsval \<Rightarrow> bool" where
  "truthy JUndefined = False"
| "truthy JNull = False"
| "truthy (JBool b) = b"
| "truthy (JNum n) = (n \<noteq> 0)"
| "truthy (JStr s) = (s \<noteq> [])"
| "truthy (JArr xs) = True"
| "truthy (JObj ps) = True"
| "truthy (JFun f) = True"
| "truthy (JNode n) = True"

text \<open>\<^verbatim>\<open>v == null\<close> holds of \<^verbatim>\<open>null\<close> and \<^verbatim>\<open>undefined\<close> only.\<close>

fun nullish :: "jsval \<Rightarrow> bool" where
  "nullish JUndefined = True"
| "nullish JNull = True"
| "nullish v = False"

text \<open>
  \<^verbatim>\<open>a || b\<close> and \<^verbatim>\<open>a && b\<close> return one of their operands. The second operand is
  a value here, so these are used only where evaluating it cannot fail.
\<close>

definition js_or :: "jsval \<Rightarrow> jsval \<Rightarrow> jsval" where
  "js_or a b = (if truthy a then a else b)"

definition js_and :: "jsval \<Rightarrow> jsval \<Rightarrow> jsval" where
  "js_and a b = (if truthy a then b else a)"

text \<open>
  \<^verbatim>\<open>a === b\<close>. On primitives and function references this is equality of values.
  On objects and arrays JavaScript compares references; the model, which has objects
  by value, takes equal values for one reference.
\<close>

definition strict_equal :: "jsval \<Rightarrow> jsval \<Rightarrow> bool" where
  "strict_equal a b = (a = b)"

subsection \<open>Conversion to string\<close>

definition digit_char :: "nat \<Rightarrow> char" where
  "digit_char d = ''0123456789'' ! (d mod 10)"

fun show_nat :: "nat \<Rightarrow> string" where
  "show_nat n = (if n < 10 then [digit_char n] else show_nat (n div 10) @ [digit_char n])"

declare show_nat.simps [simp del]

definition show_int :: "int \<Rightarrow> string" where
  "show_int i = (if i < 0 then CHR ''-'' # show_nat (nat (- i)) else show_nat (nat i))"

text \<open>\<^verbatim>\<open>xs.join(sep)\<close> on strings.\<close>

fun join :: "string \<Rightarrow> string list \<Rightarrow> string" where
  "join sep [] = []"
| "join sep [x] = x"
| "join sep (x # y # ys) = x @ sep @ join sep (y # ys)"

text \<open>
  \<^verbatim>\<open>String(v)\<close>, as a template literal and \<^verbatim>\<open>join\<close> apply it. An array is its
  elements joined by commas, with \<^verbatim>\<open>null\<close> and \<^verbatim>\<open>undefined\<close> elements empty; a plain
  object is \<^verbatim>\<open>[object Object]\<close>; a function is its source text. The class string of a
  target node depends on the node; the model writes \<^verbatim>\<open>[object Node]\<close> for all.
\<close>

fun toString :: "env \<Rightarrow> jsval \<Rightarrow> string" where
  "toString env JUndefined = ''undefined''"
| "toString env JNull = ''null''"
| "toString env (JBool b) = (if b then ''true'' else ''false'')"
| "toString env (JNum n) = show_int n"
| "toString env (JStr s) = s"
| "toString env (JArr xs) =
     join '','' (map (\<lambda>x. if nullish x then [] else toString env x) xs)"
| "toString env (JObj ps) = ''[object Object]''"
| "toString env (JFun f) = fn_source env f"
| "toString env (JNode n) = ''[object Node]''"

text \<open>\<^verbatim>\<open>xs.join(sep)\<close> on values: each element converted, \<^verbatim>\<open>null\<close> and \<^verbatim>\<open>undefined\<close> empty.\<close>

definition js_join :: "env \<Rightarrow> string \<Rightarrow> jsval list \<Rightarrow> string" where
  "js_join env sep xs = join sep (map (\<lambda>x. if nullish x then [] else toString env x) xs)"

subsection \<open>Properties\<close>

text \<open>
  The own enumerable properties of a value, in \<^verbatim>\<open>Object.keys\<close> order: the
  properties of a plain object, the indices of an array or of a string, the own
  properties of a function of the caller. These are what \<^verbatim>\<open>Object.keys\<close> lists and
  what the spread \<^verbatim>\<open>{...v}\<close> copies.
\<close>

fun own_entries :: "env \<Rightarrow> jsval \<Rightarrow> (string \<times> jsval) list" where
  "own_entries env (JObj ps) = ps"
| "own_entries env (JArr xs) = zip (map show_nat [0..<length xs]) xs"
| "own_entries env (JStr s) = zip (map show_nat [0..<length s]) (map (\<lambda>c. JStr [c]) s)"
| "own_entries env (JFun (Caller i)) = fn_own env i"
| "own_entries env v = []"

definition own_keys :: "env \<Rightarrow> jsval \<Rightarrow> string list" where
  "own_keys env v = map fst (own_entries env v)"

text \<open>
  \<^verbatim>\<open>v[k]\<close> for a \<open>v\<close> that is neither \<^verbatim>\<open>null\<close> nor \<^verbatim>\<open>undefined\<close>: an own property, or
  one of the built-in properties this file reads (\<^verbatim>\<open>length\<close> of an array or a
  string, \<^verbatim>\<open>name\<close> and \<^verbatim>\<open>length\<close> of a function), or \<^verbatim>\<open>undefined\<close>. The properties of a target node
  are read through the store (below), not here.
\<close>

definition get :: "env \<Rightarrow> jsval \<Rightarrow> string \<Rightarrow> jsval" where
  "get env v k =
     (case map_of (own_entries env v) k of
        Some x \<Rightarrow> x
      | None \<Rightarrow>
          (case v of
             JArr xs \<Rightarrow> if k = ''length'' then JNum (int (length xs)) else JUndefined
           | JStr s \<Rightarrow> if k = ''length'' then JNum (int (length s)) else JUndefined
           | JFun (Caller i) \<Rightarrow>
               if k = ''name'' then JStr (fn_name env i)
               else if k = ''length'' then JNum (int (fn_length env i))
               else JUndefined
           | JFun RenderString \<Rightarrow>
               if k = ''name'' then JStr ''renderString''
               else if k = ''length'' then JNum 1
               else JUndefined
           | _ \<Rightarrow> JUndefined))"

text \<open>\<^verbatim>\<open>v.k\<close>: a TypeError when \<open>v\<close> is \<^verbatim>\<open>null\<close> or \<^verbatim>\<open>undefined\<close>.\<close>

definition get_prop :: "env \<Rightarrow> jsval \<Rightarrow> string \<Rightarrow> jsval res" where
  "get_prop env v k = (if nullish v then Err NullDereference else Ok (get env v k))"

text \<open>\<^verbatim>\<open>v.hasOwnProperty(k)\<close> for a \<open>v\<close> that is neither \<^verbatim>\<open>null\<close> nor \<^verbatim>\<open>undefined\<close>.\<close>

definition has_own :: "env \<Rightarrow> jsval \<Rightarrow> string \<Rightarrow> bool" where
  "has_own env v k =
     (k \<in> set (own_keys env v) \<or>
      (case v of
         JArr xs \<Rightarrow> k = ''length''
       | JStr s \<Rightarrow> k = ''length''
       | JFun f \<Rightarrow> k = ''name'' \<or> k = ''length''
       | _ \<Rightarrow> False))"

text \<open>
  \<^verbatim>\<open>v.k = x\<close>, with the object as a value: the object after the assignment. In a
  classic script (the file has no \<^verbatim>\<open>"use strict"\<close> and is no module) an assignment to a
  property of a primitive is ignored; on \<^verbatim>\<open>null\<close> and \<^verbatim>\<open>undefined\<close> it is a TypeError.
  Properties added to an array, a function or a target node are not part of the
  value.
\<close>

definition set_prop :: "jsval \<Rightarrow> string \<Rightarrow> jsval \<Rightarrow> jsval res" where
  "set_prop v k x =
     (if nullish v then Err NullDereference
      else case v of JObj ps \<Rightarrow> Ok (JObj (AList.update k x ps)) | _ \<Rightarrow> Ok v)"

section \<open>vnode representation\<close>

text \<open>
  \<^verbatim>\<open>[].concat(...children)\<close>: an argument that is an array contributes its elements,
  any other argument itself.
\<close>

definition concat1 :: "jsval list \<Rightarrow> jsval list" where
  "concat1 children = concat (map (\<lambda>c. case c of JArr xs \<Rightarrow> xs | _ \<Rightarrow> [c]) children)"

text \<open>
  \<^verbatim>\<open>createElement(type, props = null, ...children)\<close>. The default applies when the
  argument is \<^verbatim>\<open>undefined\<close> (or missing).
\<close>

definition createElement :: "jsval \<Rightarrow> jsval \<Rightarrow> jsval list \<Rightarrow> jsval" where
  "createElement type props children =
     JObj [(''type'', type),
           (''props'', if props = JUndefined then JNull else props),
           (''children'', js_or (JArr (concat1 children)) JNull)]"

text \<open>
  \<^verbatim>\<open>getComponentProps\<close>: the object literal is evaluated in order: the spread of
  \<^verbatim>\<open>vnode.type.defaultProps || {}\<close>, the spread of \<^verbatim>\<open>vnode.props\<close> (nothing for \<^verbatim>\<open>null\<close>
  and \<^verbatim>\<open>undefined\<close>), then \<^verbatim>\<open>children\<close>. The right operand of
  \<^verbatim>\<open>vnode.children || props.children\<close> reads an identifier \<^verbatim>\<open>props\<close> that the function
  does not bind: it is the global of that name, a ReferenceError when there is none.
\<close>

definition spread :: "env \<Rightarrow> (string \<times> jsval) list \<Rightarrow> jsval \<Rightarrow> (string \<times> jsval) list" where
  "spread env acc v = foldl (\<lambda>ps (k, x). AList.update k x ps) acc (own_entries env v)"

definition getComponentProps :: "env \<Rightarrow> jsval \<Rightarrow> jsval res" where
  "getComponentProps env vnode =
     bindR (get_prop env vnode ''type'') (\<lambda>type.
     bindR (get_prop env type ''defaultProps'') (\<lambda>defaultProps.
     bindR (get_prop env vnode ''props'') (\<lambda>props.
     bindR (get_prop env vnode ''children'') (\<lambda>children.
     bindR (if truthy children then Ok children
            else case global_props env of
                   None \<Rightarrow> Err (ReferenceError ''props'')
                 | Some g \<Rightarrow> get_prop env g ''children'') (\<lambda>c.
     Ok (JObj (AList.update ''children'' c
           (spread env (spread env [] (js_or defaultProps (JObj []))) props))))))))"

section \<open>types\<close>

definition isEmptyNode :: "jsval \<Rightarrow> bool" where
  "isEmptyNode vnode = (nullish vnode \<or> typeof vnode = ''boolean'')"

definition isTextNode :: "jsval \<Rightarrow> bool" where
  "isTextNode vnode = (typeof vnode = ''string'' \<or> typeof vnode = ''number'')"

definition isLiteralNode :: "jsval \<Rightarrow> bool" where
  "isLiteralNode vnode = (isTextNode vnode \<or> isEmptyNode vnode)"

definition isHtmlNode :: "env \<Rightarrow> jsval \<Rightarrow> jsval" where
  "isHtmlNode env vnode = js_and vnode (JBool (typeof (get env vnode ''type'') = ''string''))"

definition isFragmentNode :: "jsval \<Rightarrow> bool" where
  "isFragmentNode vnode = (case vnode of JArr xs \<Rightarrow> True | _ \<Rightarrow> False)"

definition isFunctionalComponentNode :: "env \<Rightarrow> jsval \<Rightarrow> jsval" where
  "isFunctionalComponentNode env vnode =
     js_and vnode (JBool (typeof (get env vnode ''type'') = ''function''))"

definition isValidElement :: "env \<Rightarrow> jsval \<Rightarrow> jsval" where
  "isValidElement env vnode =
     js_or (js_or (js_or (js_or (JBool (isEmptyNode vnode)) (JBool (isTextNode vnode)))
       (isHtmlNode env vnode)) (JBool (isFragmentNode vnode)))
       (isFunctionalComponentNode env vnode)"

text \<open>
  The five kinds of the data model and the classifier that decides each; \<open>kinds\<close>
  lists the kinds whose classifier accepts a value (returns a truthy result).
\<close>

datatype vkind = Empty | Text | Element | Fragment | Component

definition kinds :: "env \<Rightarrow> jsval \<Rightarrow> vkind list" where
  "kinds env v =
     (if isEmptyNode v then [Empty] else []) @
     (if isTextNode v then [Text] else []) @
     (if truthy (isHtmlNode env v) then [Element] else []) @
     (if isFragmentNode v then [Fragment] else []) @
     (if truthy (isFunctionalComponentNode env v) then [Component] else [])"

section \<open>helpers\<close>

definition toArray :: "jsval \<Rightarrow> jsval list" where
  "toArray x = (case x of JArr xs \<Rightarrow> xs | _ \<Rightarrow> if truthy x then [x] else [])"

definition isEventListener :: "string \<Rightarrow> bool" where
  "isEventListener key = (take 2 key = ''on'')"

text \<open>\<^verbatim>\<open>toLowerCase\<close> on the ASCII letters; other characters are left as they are.\<close>

definition lower_char :: "char \<Rightarrow> char" where
  "lower_char c =
     (case map_of (zip ''ABCDEFGHIJKLMNOPQRSTUVWXYZ'' ''abcdefghijklmnopqrstuvwxyz'') c of
        Some l \<Rightarrow> l
      | None \<Rightarrow> c)"

definition getListenerName :: "string \<Rightarrow> string" where
  "getListenerName key = map lower_char (drop 2 key)"

section \<open>The rendering target\<close>

text \<open>
  The DOM is outside the library. The model keeps of it what the library reads back:
  which nodes exist and of what kind, the child list of each, and the \<^verbatim>\<open>__vnode\<close>
  property the library puts on a node. Attributes and listeners are never read back;
  they are recorded in \<open>ops\<close>, the sequence of the calls made on the DOM, oldest
  first. A node handle \<open>JNode n\<close> denotes the \<open>n\<close>-th node of the store; a handle
  beyond the store denotes no node.

  A \<^verbatim>\<open>document\<close> is taken to exist, as in the browser the script is written for.
  The primitives are taken to succeed on a node of the right kind: the DOM's checks
  of tag and attribute names are not modelled. \<^verbatim>\<open>appendChild\<close> is only ever given a
  node that \<^verbatim>\<open>renderElement\<close> has just made, so the model does not detach the
  child from an earlier parent.
\<close>

datatype node_kind = ElementNode string | TextNode string | CommentNode string | FragmentNode

record dom_node =
  nkind :: node_kind
  childNodes :: "nat list"
  vnode_ref :: "jsval option"

datatype dom_op =
    CreateElement nat string
  | CreateTextNode nat string
  | CreateComment nat string
  | CreateDocumentFragment nat
  | SetAttribute nat string jsval
  | RemoveAttribute nat string
  | AddEventListener nat string jsval
  | RemoveEventListener nat string jsval
  | AppendChild nat nat
  | ClearChildren nat

record store =
  nodes :: "dom_node list"
  ops :: "dom_op list"

type_synonym 'a act = "store \<Rightarrow> 'a res \<times> store"

definition ret :: "'a \<Rightarrow> 'a act" where
  "ret x = (\<lambda>s. (Ok x, s))"

definition liftR :: "'a res \<Rightarrow> 'a act" where
  "liftR r = (\<lambda>s. (r, s))"

text \<open>Sequencing: an exception ends the run and keeps the store as it is at that point.\<close>

definition bindS :: "'a act \<Rightarrow> ('a \<Rightarrow> 'b act) \<Rightarrow> 'b act" where
  "bindS m f = (\<lambda>s. case m s of
                       (Ok x, s') \<Rightarrow> f x s'
                     | (Err e, s') \<Rightarrow> (Err e, s')
                     | (Diverge, s') \<Rightarrow> (Diverge, s'))"

text \<open>\<^verbatim>\<open>xs.forEach(f)\<close> and \<^verbatim>\<open>xs.map(f)\<close> with an effectful \<open>f\<close>.\<close>

fun forEach :: "('a \<Rightarrow> jsval act) \<Rightarrow> 'a list \<Rightarrow> jsval act" where
  "forEach f [] = ret JUndefined"
| "forEach f (x # xs) = bindS (f x) (\<lambda>_. forEach f xs)"

fun mapS :: "('a \<Rightarrow> 'b act) \<Rightarrow> 'a list \<Rightarrow> 'b list act" where
  "mapS f [] = ret []"
| "mapS f (x # xs) = bindS (f x) (\<lambda>y. bindS (mapS f xs) (\<lambda>ys. ret (y # ys)))"

definition node_at :: "store \<Rightarrow> nat \<Rightarrow> dom_node option" where
  "node_at s n = (if n < length (nodes s) then Some (nodes s ! n) else None)"

definition new_node :: "node_kind \<Rightarrow> (nat \<Rightarrow> dom_op) \<Rightarrow> jsval act" where
  "new_node k op = (\<lambda>s.
     (Ok (JNode (length (nodes s))),
      s\<lparr>nodes := nodes s @ [\<lparr>nkind = k, childNodes = [], vnode_ref = None\<rparr>],
        ops := ops s @ [op (length (nodes s))]\<rparr>))"

definition document_createElement :: "string \<Rightarrow> jsval act" where
  "document_createElement tag = new_node (ElementNode tag) (\<lambda>n. CreateElement n tag)"

definition document_createTextNode :: "string \<Rightarrow> jsval act" where
  "document_createTextNode t = new_node (TextNode t) (\<lambda>n. CreateTextNode n t)"

definition document_createComment :: "string \<Rightarrow> jsval act" where
  "document_createComment t = new_node (CommentNode t) (\<lambda>n. CreateComment n t)"

definition document_createDocumentFragment :: "jsval act" where
  "document_createDocumentFragment = new_node FragmentNode CreateDocumentFragment"

text \<open>
  A method call \<^verbatim>\<open>recv.m(args)\<close> on a receiver that is no target node: a TypeError on
  \<^verbatim>\<open>null\<close> and \<^verbatim>\<open>undefined\<close>; the call of the property when it is a function; a
  TypeError otherwise.
\<close>

definition invoke :: "env \<Rightarrow> jsval \<Rightarrow> string \<Rightarrow> jsval list \<Rightarrow> jsval act" where
  "invoke env recv m args =
     (if nullish recv then liftR (Err NullDereference)
      else case get env recv m of
             JFun f \<Rightarrow> liftR (call env f args)
           | _ \<Rightarrow> liftR (Err NotCallable))"

definition log_op :: "dom_op \<Rightarrow> jsval act" where
  "log_op op = (\<lambda>s. (Ok JUndefined, s\<lparr>ops := ops s @ [op]\<rparr>))"

text \<open>Every node is an event target; only an element has attributes.\<close>

definition addEventListener :: "env \<Rightarrow> jsval \<Rightarrow> string \<Rightarrow> jsval \<Rightarrow> jsval act" where
  "addEventListener env el name cb = (\<lambda>s.
     case el of
       JNode n \<Rightarrow>
         (case node_at s n of
            Some nd \<Rightarrow> log_op (AddEventListener n name cb) s
          | None \<Rightarrow> (Err NotCallable, s))
     | _ \<Rightarrow> invoke env el ''addEventListener'' [JStr name, cb] s)"

definition removeEventListener :: "env \<Rightarrow> jsval \<Rightarrow> string \<Rightarrow> jsval \<Rightarrow> jsval act" where
  "removeEventListener env el name cb = (\<lambda>s.
     case el of
       JNode n \<Rightarrow>
         (case node_at s n of
            Some nd \<Rightarrow> log_op (RemoveEventListener n name cb) s
          | None \<Rightarrow> (Err NotCallable, s))
     | _ \<Rightarrow> invoke env el ''removeEventListener'' [JStr name, cb] s)"

definition is_element :: "store \<Rightarrow> nat \<Rightarrow> bool" where
  "is_element s n = (case node_at s n of Some nd \<Rightarrow> (case nkind nd of ElementNode t \<Rightarrow> True | _ \<Rightarrow> False) | None \<Rightarrow> False)"

definition setAttribute :: "env \<Rightarrow> jsval \<Rightarrow> string \<Rightarrow> jsval \<Rightarrow> jsval act" where
  "setAttribute env el key v = (\<lambda>s.
     case el of
       JNode n \<Rightarrow> if is_element s n then log_op (SetAttribute n key v) s else (Err NotCallable, s)
     | _ \<Rightarrow> invoke env el ''setAttribute'' [JStr key, v] s)"

definition removeAttribute :: "env \<Rightarrow> jsval \<Rightarrow> string \<Rightarrow> jsval act" where
  "removeAttribute env el key = (\<lambda>s.
     case el of
       JNode n \<Rightarrow> if is_element s n then log_op (RemoveAttribute n key) s else (Err NotCallable, s)
     | _ \<Rightarrow> invoke env el ''removeAttribute'' [JStr key] s)"

text \<open>
  \<^verbatim>\<open>parent.appendChild(child)\<close>. An element and a document fragment take children; a
  text node and a comment refuse them. A document fragment given as the child hands
  over its children and is left empty.
\<close>

definition set_children :: "nat \<Rightarrow> nat list \<Rightarrow> store \<Rightarrow> store" where
  "set_children n cs s = s\<lparr>nodes := (nodes s)[n := (nodes s ! n)\<lparr>childNodes := cs\<rparr>]\<rparr>"

definition appendChild :: "env \<Rightarrow> jsval \<Rightarrow> jsval \<Rightarrow> jsval act" where
  "appendChild env parent child = (\<lambda>s.
     case parent of
       JNode p \<Rightarrow>
         (case node_at s p of
            None \<Rightarrow> (Err NotCallable, s)
          | Some pn \<Rightarrow>
              (case child of
                 JNode c \<Rightarrow>
                   (case node_at s c of
                      None \<Rightarrow> (Err NotANode, s)
                    | Some cn \<Rightarrow>
                        (case nkind pn of
                           TextNode t \<Rightarrow> (Err HierarchyRequestError, s)
                         | CommentNode t \<Rightarrow> (Err HierarchyRequestError, s)
                         | _ \<Rightarrow>
                             (if nkind cn = FragmentNode
                              then log_op (AppendChild p c)
                                     (set_children c [] (set_children p (childNodes pn @ childNodes cn) s))
                              else log_op (AppendChild p c)
                                     (set_children p (childNodes pn @ [c]) s))))
               | _ \<Rightarrow> (Err NotANode, s)))
     | _ \<Rightarrow> invoke env parent ''appendChild'' [child] s)"

text \<open>
  The expression \<^verbatim>\<open>recv.appendChild(arg)\<close>: the method is read off the receiver
  first (a TypeError on \<^verbatim>\<open>null\<close> and \<^verbatim>\<open>undefined\<close>), then the argument is evaluated,
  then the call is made.
\<close>

definition appendChild_of :: "env \<Rightarrow> jsval \<Rightarrow> jsval act \<Rightarrow> jsval act" where
  "appendChild_of env recv arg =
     (if nullish recv then liftR (Err NullDereference)
      else bindS arg (\<lambda>c. appendChild env recv c))"

text \<open>
  \<^verbatim>\<open>el.innerHTML = ""\<close>: on an element it removes the children; on any other object it
  sets a property the library never reads.
\<close>

definition set_innerHTML_empty :: "jsval \<Rightarrow> jsval act" where
  "set_innerHTML_empty el = (\<lambda>s.
     if nullish el then (Err NullDereference, s)
     else case el of
            JNode n \<Rightarrow> if is_element s n then log_op (ClearChildren n) (set_children n [] s)
                       else (Ok JUndefined, s)
          | _ \<Rightarrow> (Ok JUndefined, s))"

text \<open>Reading \<^verbatim>\<open>node.childNodes[0]\<close> and \<^verbatim>\<open>node.__vnode\<close>.\<close>

definition childNodes_0 :: "env \<Rightarrow> jsval \<Rightarrow> store \<Rightarrow> jsval res" where
  "childNodes_0 env node s =
     (case node of
        JNode n \<Rightarrow>
          (case node_at s n of
             Some nd \<Rightarrow> (case childNodes nd of [] \<Rightarrow> Ok JUndefined | k # ks \<Rightarrow> Ok (JNode k))
           | None \<Rightarrow> Err NullDereference)
      | _ \<Rightarrow> bindR (get_prop env node ''childNodes'') (\<lambda>cn. get_prop env cn ''0''))"

definition get_vnode_ref :: "env \<Rightarrow> jsval \<Rightarrow> store \<Rightarrow> jsval res" where
  "get_vnode_ref env node s =
     (case node of
        JNode n \<Rightarrow>
          (case node_at s n of
             Some nd \<Rightarrow> (case vnode_ref nd of Some v \<Rightarrow> Ok v | None \<Rightarrow> Ok JUndefined)
           | None \<Rightarrow> Ok JUndefined)
      | _ \<Rightarrow> get_prop env node ''__vnode'')"

definition readS :: "(store \<Rightarrow> 'a res) \<Rightarrow> 'a act" where
  "readS f = (\<lambda>s. (f s, s))"

text \<open>\<^verbatim>\<open>el.__vnode = vnode\<close> on a target node; on another object it is not kept.\<close>

definition set_vnode_ref :: "jsval \<Rightarrow> jsval \<Rightarrow> store \<Rightarrow> store" where
  "set_vnode_ref el vnode s =
     (case el of
        JNode n \<Rightarrow> s\<lparr>nodes := (nodes s)[n := (nodes s ! n)\<lparr>vnode_ref := Some vnode\<rparr>]\<rparr>
      | _ \<Rightarrow> s)"

section \<open>Prop reconciliation\<close>

definition setElementProp :: "env \<Rightarrow> jsval \<Rightarrow> string \<Rightarrow> jsval \<Rightarrow> jsval act" where
  "setElementProp env el key v =
     (if isEventListener key then addEventListener env el (getListenerName key) v
      else setAttribute env el key v)"

definition removeElementProp :: "env \<Rightarrow> jsval \<Rightarrow> string \<Rightarrow> jsval \<Rightarrow> jsval act" where
  "removeElementProp env el key v =
     (if isEventListener key then removeEventListener env el (getListenerName key) v
      else removeAttribute env el key)"

text \<open>
  \<^verbatim>\<open>updateElementProps(el, nextProps, prevProps)\<close>. The first loop reads
  \<^verbatim>\<open>nextProps.hasOwnProperty\<close> before \<^verbatim>\<open>nextProps\<close> gets its default, so it is a
  TypeError when \<^verbatim>\<open>prevProps\<close> has a key and \<^verbatim>\<open>nextProps\<close> is \<^verbatim>\<open>null\<close> or \<^verbatim>\<open>undefined\<close>.
\<close>

definition updateElementProps :: "env \<Rightarrow> jsval \<Rightarrow> jsval \<Rightarrow> jsval \<Rightarrow> jsval act" where
  "updateElementProps env el nextProps0 prevProps0 =
     (let prevProps = js_or prevProps0 (JObj []) in
      bindS (forEach (\<lambda>key.
               if nullish nextProps0 then liftR (Err NullDereference)
               else if \<not> has_own env nextProps0 key
               then removeElementProp env el key (get env prevProps key)
               else ret JUndefined)
             (own_keys env prevProps)) (\<lambda>_.
      let nextProps = js_or nextProps0 (JObj []) in
      forEach (\<lambda>key.
        if (\<not> has_own env prevProps key \<or>
            \<not> strict_equal (get env prevProps key) (get env nextProps key)) \<and>
           key \<noteq> ''key'' \<and> key \<noteq> ''ref''
        then bindS (if isEventListener key \<and> has_own env prevProps key
                    then removeElementProp env el key (get env prevProps key)
                    else ret JUndefined) (\<lambda>_.
             setElementProp env el key (get env nextProps key))
        else ret JUndefined)
        (own_keys env nextProps)))"

section \<open>expandTree\<close>

text \<open>
  \<^verbatim>\<open>expandTree\<close> recurses through whatever the components return, so it need not
  end; the first argument bounds the depth of the recursion, and \<open>Diverge\<close> is the
  result when the bound is reached.
\<close>

definition elements :: "jsval \<Rightarrow> jsval list" where
  "elements v = (case v of JArr xs \<Rightarrow> xs | _ \<Rightarrow> [])"

definition call_value :: "env \<Rightarrow> jsval \<Rightarrow> jsval list \<Rightarrow> jsval res" where
  "call_value env f args = (case f of JFun r \<Rightarrow> call env r args | _ \<Rightarrow> Err NotCallable)"

fun expandTree :: "nat \<Rightarrow> env \<Rightarrow> jsval \<Rightarrow> jsval res" where
  "expandTree 0 env vnode0 = Diverge"
| "expandTree (Suc n) env vnode0 =
     bindR (if typeof vnode0 = ''function'' then call_value env vnode0 [] else Ok vnode0) (\<lambda>vnode.
       if isEmptyNode vnode then Ok vnode
       else if isTextNode vnode then Ok vnode
       else if isFragmentNode vnode then
         bindR (mapR (\<lambda>child. expandTree n env child) (elements vnode)) (\<lambda>xs. Ok (JArr xs))
       else if truthy (isFunctionalComponentNode env vnode) then
         bindR (getComponentProps env vnode) (\<lambda>props.
         bindR (call_value env (get env vnode ''type'') [props]) (\<lambda>r.
         expandTree n env r))
       else
         bindR (mapR (\<lambda>child. expandTree n env child) (toArray (get env vnode ''children'')))
           (\<lambda>cs. Ok (JObj (AList.update ''children'' (JArr cs) (spread env [] vnode)))))"

section \<open>renderElement\<close>

text \<open>
  \<^verbatim>\<open>backRef(el, vnode)\<close>: \<^verbatim>\<open>el.__vnode = vnode; vnode.__ref = el; return el\<close>. The
  second assignment is a TypeError when the vnode is \<^verbatim>\<open>null\<close> or \<^verbatim>\<open>undefined\<close>. The node
  keeps a reference to the vnode, so it sees the vnode with \<^verbatim>\<open>__ref\<close> set.

  In \<^verbatim>\<open>renderElement\<close> the assignment \<^verbatim>\<open>vnode.ref = fragment\<close> adds a property to an
  array; with arrays as lists of their elements it leaves the value as it is.

  \<^verbatim>\<open>renderElement\<close> and \<^verbatim>\<open>renderString\<close> recurse as \<^verbatim>\<open>expandTree\<close> does, and take the
  same bound as their first argument.
\<close>

definition backRef :: "jsval \<Rightarrow> jsval \<Rightarrow> jsval act" where
  "backRef el vnode = (\<lambda>s.
     if nullish el then (Err NullDereference, s)
     else case set_prop vnode ''__ref'' el of
            Ok vnode' \<Rightarrow> (Ok el, set_vnode_ref el vnode' s)
          | Err e \<Rightarrow> (Err e, set_vnode_ref el vnode s)
          | Diverge \<Rightarrow> (Diverge, s))"

fun renderElement :: "nat \<Rightarrow> env \<Rightarrow> jsval \<Rightarrow> jsval act" where
  "renderElement 0 env vnode0 = liftR Diverge"
| "renderElement (Suc n) env vnode0 =
     bindS (liftR (if typeof vnode0 = ''function'' then call_value env vnode0 [] else Ok vnode0)) (\<lambda>vnode.
       if isEmptyNode vnode then
         bindS (document_createComment (''('' @ toString env vnode @ '')'')) (\<lambda>el. backRef el vnode)
       else if isTextNode vnode then
         bindS (document_createTextNode (toString env vnode)) (\<lambda>el. backRef el vnode)
       else if isFragmentNode vnode then
         bindS document_createDocumentFragment (\<lambda>fragment.
         bindS (forEach (\<lambda>e. appendChild_of env fragment (renderElement n env e)) (elements vnode)) (\<lambda>_.
         backRef fragment vnode))
       else if truthy (isFunctionalComponentNode env vnode) then
         bindS (liftR (getComponentProps env vnode)) (\<lambda>props.
         bindS (liftR (call_value env (get env vnode ''type'') [props])) (\<lambda>r.
         renderElement n env r))
       else
         bindS (document_createElement (toString env (get env vnode ''type''))) (\<lambda>node.
         bindS (backRef node vnode) (\<lambda>el.
         bindS (updateElementProps env el (get env vnode ''props'') JUndefined) (\<lambda>_.
         bindS (forEach (\<lambda>child. appendChild_of env el (renderElement n env child))
                  (toArray (get env vnode ''children''))) (\<lambda>_.
         ret el)))))"

section \<open>render\<close>

definition render :: "nat \<Rightarrow> env \<Rightarrow> jsval \<Rightarrow> jsval \<Rightarrow> jsval act" where
  "render n env vnode container =
     bindS (set_innerHTML_empty container) (\<lambda>_.
     bindS (backRef container vnode) (\<lambda>c.
     bindS (appendChild_of env c (renderElement n env vnode)) (\<lambda>_.
     ret JUndefined)))"

section \<open>renderString\<close>

definition newline :: string where
  "newline = [CHR 0x0A]"

definition dquote :: string where
  "dquote = [CHR 0x22]"

text \<open>
  \<^verbatim>\<open>v.map(f)\<close> where \<open>v\<close> is whatever the vnode holds: a TypeError unless it is an
  array (an object with a \<^verbatim>\<open>map\<close> method of its own is not modelled).
\<close>

definition js_map :: "jsval \<Rightarrow> (jsval \<Rightarrow> jsval act) \<Rightarrow> jsval list act" where
  "js_map v f =
     (if nullish v then liftR (Err NullDereference)
      else case v of JArr xs \<Rightarrow> mapS f xs | _ \<Rightarrow> liftR (Err NotCallable))"

definition js_forEach :: "jsval \<Rightarrow> (jsval \<Rightarrow> jsval act) \<Rightarrow> jsval act" where
  "js_forEach v f =
     (if nullish v then liftR (Err NullDereference)
      else case v of JArr xs \<Rightarrow> forEach f xs | _ \<Rightarrow> liftR (Err NotCallable))"

definition attr_string :: "env \<Rightarrow> jsval \<Rightarrow> string" where
  "attr_string env vnode =
     join '' '' (map (\<lambda>key. key @ ''='' @ dquote @ toString env (get env (get env vnode ''props'') key) @ dquote)
       (filter (\<lambda>key. \<not> isEventListener key)
         (own_keys env (js_or (get env vnode ''props'') (JObj [])))))"

fun renderString :: "nat \<Rightarrow> env \<Rightarrow> jsval \<Rightarrow> jsval act" where
  "renderString 0 env vnode0 = liftR Diverge"
| "renderString (Suc n) env vnode0 =
     bindS (liftR (if typeof vnode0 = ''function'' then call_value env vnode0 [] else Ok vnode0)) (\<lambda>vnode.
       if isEmptyNode vnode then ret (JStr [])
       else if isTextNode vnode then ret vnode
       else if isFragmentNode vnode then
         bindS (mapS (\<lambda>e. render n env e (JFun RenderString)) (elements vnode)) (\<lambda>rs.
         ret (JStr (js_join env newline rs)))
       else if truthy (isFunctionalComponentNode env vnode) then
         bindS (liftR (getComponentProps env vnode)) (\<lambda>props.
         bindS (liftR (call_value env (get env vnode ''type'') [props])) (\<lambda>r.
         renderString n env r))
       else
         (let props = attr_string env vnode;
              tag = toString env (get env vnode ''type'') in
          bindS (js_map (get env vnode ''children'') (\<lambda>child. renderString n env child)) (\<lambda>cs.
          let children = js_join env newline cs in
          if props \<noteq> [] then
            ret (JStr (''<'' @ tag @ '' '' @ props @ ''>'' @ children @ ''</'' @ tag @ ''>''))
          else
            ret (JStr (''<'' @ tag @ ''>'' @ children @ ''</'' @ tag @ ''>'')))))"

section \<open>update\<close>

definition computeKey :: "env \<Rightarrow> jsval \<Rightarrow> nat \<Rightarrow> jsval" where
  "computeKey env vnode i =
     (if truthy vnode \<and> truthy (get env vnode ''props'') \<and>
         truthy (get env (get env vnode ''props'') ''key'')
      then get env (get env vnode ''props'') ''key''
      else
        (let key = (if truthy vnode \<and> truthy (get env vnode ''type'')
                    then js_or (get env (get env vnode ''type'') ''name'') (get env vnode ''type'')
                    else JStr (typeof vnode))
         in JStr (''__react__.'' @ toString env key @ ''-'' @ show_nat i)))"

text \<open>
  \<^verbatim>\<open>update(node)\<close>. The calls of \<^verbatim>\<open>console.log\<close> and the two assignments to
  \<^verbatim>\<open>window\<close> are debugging output and are left out. Each of the three conditions
  reads \<^verbatim>\<open>prevChildren.length\<close> and, unless it is short-circuited, \<^verbatim>\<open>nextChildren.length\<close>;
  both have been read, with the same outcome, when the first branch is taken, so
  the model reads them once.
\<close>

definition update :: "nat \<Rightarrow> env \<Rightarrow> jsval \<Rightarrow> jsval act" where
  "update n env node =
     bindS (readS (childNodes_0 env node)) (\<lambda>child0.
     bindS (readS (get_vnode_ref env child0)) (\<lambda>prevTree.
     bindS (readS (get_vnode_ref env node)) (\<lambda>root.
     bindS (liftR (expandTree n env root)) (\<lambda>nextTree.
     bindS (liftR (get_prop env prevTree ''__ref'')) (\<lambda>el.
     bindS (liftR (get_prop env nextTree ''props'')) (\<lambda>nextProps.
     bindS (liftR (get_prop env prevTree ''props'')) (\<lambda>prevProps.
     bindS (updateElementProps env el nextProps prevProps) (\<lambda>_.
     bindS (liftR (get_prop env prevTree ''children'')) (\<lambda>prevChildren.
     bindS (liftR (get_prop env nextTree ''children'')) (\<lambda>nextChildren.
     bindS (liftR (get_prop env prevChildren ''length'')) (\<lambda>prevLength.
     bindS (liftR (get_prop env nextChildren ''length'')) (\<lambda>nextLength.
       if \<not> truthy prevLength \<and> \<not> truthy nextLength then ret JUndefined
       else if truthy prevLength \<and> \<not> truthy nextLength then
         bindS (set_innerHTML_empty el) (\<lambda>_. ret JUndefined)
       else if \<not> truthy prevLength \<and> truthy nextLength then
         bindS (js_forEach nextChildren
                  (\<lambda>child. appendChild_of env el (renderElement n env child))) (\<lambda>_.
         ret JUndefined)
       else ret JUndefined))))))))))))"

section \<open>Trees without components\<close>

text \<open>
  A vnode tree that holds only Empty, Text, Element and Fragment nodes: a literal; an
  array of such trees; or an object with distinct keys (as every JavaScript object
  has) whose \<^verbatim>\<open>type\<close> is a string and whose \<^verbatim>\<open>children\<close>, as \<^verbatim>\<open>toArray\<close> reads them,
  are such trees. A function (a component, or a callable in place of a vnode) and a
  target node are not.
\<close>

definition field :: "(string \<times> jsval) list \<Rightarrow> string \<Rightarrow> jsval" where
  "field ps k = (case map_of ps k of Some x \<Rightarrow> x | None \<Rightarrow> JUndefined)"

lemma size_field: "size (field ps k) < Suc (size_list (size_prod (\<lambda>_. 0) size) ps)"
  by (induction ps) (auto simp: field_def)

lemma size_elem: "x \<in> set xs \<Longrightarrow> size (x::jsval) < Suc (size_list size xs)"
  by (induction xs) auto

lemma size_toArray: "c \<in> set (toArray x) \<Longrightarrow> size c \<le> size x"
  using size_elem by (cases x) (auto simp: toArray_def less_imp_le split: if_splits)

lemma size_child: "c \<in> set (toArray (field ps k)) \<Longrightarrow> size c < size (JObj ps)"
  using size_toArray[of c "field ps k"] size_field[of ps k] by simp

function componentFree :: "jsval \<Rightarrow> bool" where
  "componentFree (JArr xs) = list_all componentFree xs"
| "componentFree (JObj ps) =
     (distinct (map fst ps) \<and> typeof (field ps ''type'') = ''string'' \<and>
      list_all componentFree (toArray (field ps ''children'')))"
| "componentFree (JFun f) = False"
| "componentFree (JNode n) = False"
| "componentFree JUndefined = True"
| "componentFree JNull = True"
| "componentFree (JBool b) = True"
| "componentFree (JNum i) = True"
| "componentFree (JStr s) = True"
  by pat_completeness auto
termination
proof (relation "measure size")
  show "wf (measure size)" by simp
next
  fix xs :: "jsval list" and x
  assume "x \<in> set xs"
  then show "(x, JArr xs) \<in> measure size" using size_elem[of x xs] by simp
next
  fix ps x
  assume "x \<in> set (toArray (field ps ''children''))"
  then show "(x, JObj ps) \<in> measure size" using size_child[of x ps] by simp
qed

text \<open>The nesting depth of a tree: the recursion depth \<^verbatim>\<open>expandTree\<close> needs on it.\<close>

function depth :: "jsval \<Rightarrow> nat" where
  "depth (JArr xs) = Suc (foldr max (map depth xs) 0)"
| "depth (JObj ps) = Suc (foldr max (map depth (toArray (field ps ''children''))) 0)"
| "depth (JFun f) = 0"
| "depth (JNode n) = 0"
| "depth JUndefined = 0"
| "depth JNull = 0"
| "depth (JBool b) = 0"
| "depth (JNum i) = 0"
| "depth (JStr s) = 0"
  by pat_completeness auto
termination
proof (relation "measure size")
  show "wf (measure size)" by simp
next
  fix xs :: "jsval list" and x
  assume "x \<in> set xs"
  then show "(x, JArr xs) \<in> measure size" using size_elem[of x xs] by simp
next
  fix ps x
  assume "x \<in> set (toArray (field ps ''children''))"
  then show "(x, JObj ps) \<in> measure size" using size_child[of x ps] by simp
qed

text \<open>
  What \<^verbatim>\<open>expandTree\<close> makes of a tree without components: the same tree with the
  children of every element normalised to an array.
\<close>

function normal :: "jsval \<Rightarrow> jsval" where
  "normal (JArr xs) = JArr (map normal xs)"
| "normal (JObj ps) =
     JObj (AList.update ''children'' (JArr (map normal (toArray (field ps ''children'')))) ps)"
| "normal (JFun f) = JFun f"
| "normal (JNode n) = JNode n"
| "normal JUndefined = JUndefined"
| "normal JNull = JNull"
| "normal (JBool b) = JBool b"
| "normal (JNum i) = JNum i"
| "normal (JStr s) = JStr s"
  by pat_completeness auto
termination
proof (relation "measure size")
  show "wf (measure size)" by simp
next
  fix xs :: "jsval list" and x
  assume "x \<in> set xs"
  then show "(x, JArr xs) \<in> measure size" using size_elem[of x xs] by simp
next
  fix ps x
  assume "x \<in> set (toArray (field ps ''children''))"
  then show "(x, JObj ps) \<in> measure size" using size_child[of x ps] by simp
qed

section \<open>Concrete inputs\<close>

text \<open>
  An environment with three functions of the caller. \<open>Caller 0\<close> is a component
  \<^verbatim>\<open>App\<close> in the manner of the demo: it returns a \<^verbatim>\<open>div\<close> whose children are the
  \<^verbatim>\<open>items\<close> prop. \<open>Caller 1\<close> is a component that throws. \<open>Caller 2\<close> is a component
  \<^verbatim>\<open>Greeting\<close> with \<^verbatim>\<open>defaultProps\<close>. There is no global named \<^verbatim>\<open>props\<close>.
\<close>

definition empty_env :: env where
  "empty_env = \<lparr>call = (\<lambda>f args. Ok JUndefined), fn_own = (\<lambda>i. []), fn_name = (\<lambda>i. []),
                 fn_length = (\<lambda>i. 0), fn_source = (\<lambda>f. []), global_props = None\<rparr>"

definition App :: "jsval list \<Rightarrow> jsval res" where
  "App args =
     Ok (createElement (JStr ''div'') (JObj [(''class'', JStr ''App'')])
           [get empty_env (case args of [] \<Rightarrow> JUndefined | a # as \<Rightarrow> a) ''items''])"

definition demo_env :: env where
  "demo_env =
     \<lparr>call = (\<lambda>f args. if f = Caller 0 then App args
                        else if f = Caller 1 then Err (Thrown (JStr ''boom''))
                        else Ok JUndefined),
      fn_own = (\<lambda>i. if i = 2 then [(''defaultProps'',
                  JObj [(''greeting'', JStr ''hello''), (''children'', JStr ''inherited'')])] else []),
      fn_name = (\<lambda>i. if i = 0 then ''App'' else if i = 1 then ''Broken'' else ''Greeting''),
      fn_length = (\<lambda>i. 1),
      fn_source = (\<lambda>f. ''function () { }''),
      global_props = None\<rparr>"

text \<open>A container that nothing was rendered into: one element without children.\<close>

definition fresh_store :: store where
  "fresh_store = \<lparr>nodes = [\<lparr>nkind = ElementNode ''div'', childNodes = [], vnode_ref = None\<rparr>], ops = []\<rparr>"

text \<open>A container with a child that is static markup: no vnode is recorded on either.\<close>

definition static_store :: store where
  "static_store =
     \<lparr>nodes = [\<lparr>nkind = ElementNode ''div'', childNodes = [1], vnode_ref = None\<rparr>,
               \<lparr>nkind = ElementNode ''p'', childNodes = [], vnode_ref = None\<rparr>],
      ops = []\<rparr>"

text \<open>
  The props \<^verbatim>\<open>{items: xs}\<close>, and three vnodes: \<^verbatim>\<open>createElement(App, {items: xs})\<close> as a
  container holds it after \<^verbatim>\<open>render\<close>; the \<^verbatim>\<open>div\<close> with children \<open>cs\<close> that \<^verbatim>\<open>App\<close>
  returned then, as the rendered node 1 holds it; and the expansion of the \<^verbatim>\<open>div\<close>
  that \<^verbatim>\<open>App\<close> returns now.
\<close>

definition items :: "jsval list \<Rightarrow> jsval" where
  "items xs = JObj [(''items'', JArr xs)]"

definition app_vnode :: "jsval list \<Rightarrow> jsval" where
  "app_vnode xs = JObj [(''type'', JFun (Caller 0)), (''props'', items xs),
                        (''children'', JArr []), (''__ref'', JNode 0)]"

definition old_div :: "jsval list \<Rightarrow> jsval" where
  "old_div cs = JObj [(''type'', JStr ''div''), (''props'', JObj [(''class'', JStr ''App'')]),
                      (''children'', JArr cs), (''__ref'', JNode 1)]"

definition new_div :: "jsval list \<Rightarrow> jsval" where
  "new_div cs = JObj [(''type'', JStr ''div''), (''props'', JObj [(''class'', JStr ''App'')]),
                      (''children'', JArr cs)]"

text \<open>
  The store after \<^verbatim>\<open>render(createElement(F, props), container)\<close> where the component
  \<open>F\<close> returned an empty \<^verbatim>\<open>div\<close>: node 0 is the container, node 1 the \<^verbatim>\<open>div\<close>. And the
  store when \<open>F\<close> returned a \<^verbatim>\<open>div\<close> with one text child: node 2 is the text node.
\<close>

definition rendered_store :: "fn_ref \<Rightarrow> jsval \<Rightarrow> store" where
  "rendered_store f props =
     \<lparr>nodes = [\<lparr>nkind = ElementNode ''div'', childNodes = [1],
                 vnode_ref = Some (JObj [(''type'', JFun f), (''props'', props),
                                         (''children'', JArr []), (''__ref'', JNode 0)])\<rparr>,
               \<lparr>nkind = ElementNode ''div'', childNodes = [], vnode_ref = Some (old_div [])\<rparr>],
      ops = []\<rparr>"

definition rendered_store1 :: "fn_ref \<Rightarrow> jsval \<Rightarrow> store" where
  "rendered_store1 f props =
     \<lparr>nodes = [\<lparr>nkind = ElementNode ''div'', childNodes = [1],
                 vnode_ref = Some (JObj [(''type'', JFun f), (''props'', props),
                                         (''children'', JArr []), (''__ref'', JNode 0)])\<rparr>,
               \<lparr>nkind = ElementNode ''div'', childNodes = [2],
                 vnode_ref = Some (old_div [JStr ''old''])\<rparr>,
               \<lparr>nkind = TextNode ''old'', childNodes = [], vnode_ref = Some (JStr ''old'')\<rparr>],
      ops = []\<rparr>"

text \<open>A fragment without components; the first element has a single child that is no array.\<close>

definition sample_tree :: jsval where
  "sample_tree =
     JArr [JObj [(''type'', JStr ''div''), (''props'', JNull), (''children'', JStr ''hi'')],
           JObj [(''type'', JStr ''br'')], JNum 0, JNull]"



text \<open>\<^verbatim>\<open>createElement("li", {key: 0})\<close> and \<^verbatim>\<open>createElement("li", {key: "k"})\<close>.\<close>

definition keyed_zero :: jsval where
  "keyed_zero = createElement (JStr ''li'') (JObj [(''key'', JNum 0)]) []"

definition keyed_k :: jsval where
  "keyed_k = createElement (JStr ''li'') (JObj [(''key'', JStr ''k'')]) []"

text \<open>A container never rendered into: no vnode on it, and no child with a vnode.\<close>

definition never_rendered :: "store \<Rightarrow> nat \<Rightarrow> bool" where
  "never_rendered s c =
     (case node_at s c of
        None \<Rightarrow> False
      | Some nd \<Rightarrow>
          vnode_ref nd = None \<and>
          (case childNodes nd of
             [] \<Rightarrow> True
           | k # ks \<Rightarrow> (case node_at s k of None \<Rightarrow> False | Some kd \<Rightarrow> vnode_ref kd = None)))"

text \<open>An action that leaves the nodes of the store as they are (it may add to \<open>ops\<close>).\<close>

definition keeps_nodes :: "'a act \<Rightarrow> bool" where
  "keeps_nodes m = (\<forall>s r s'. m s = (r, s') \<longrightarrow> nodes s' = nodes s)"

section \<open>Auxiliary facts\<close>

lemma falsy_get: "\<not> truthy v \<Longrightarrow> \<not> truthy (get env v k)"
  by (cases v) (auto simp: get_def)

lemma get_JObj: "get env (JObj ps) k = field ps k"
  by (simp add: get_def field_def split: option.splits)

lemma update_fresh: "k \<notin> fst ` set al \<Longrightarrow> AList.update k v al = al @ [(k, v)]"
  by (induction al) auto

lemma foldl_update_distinct:
  "distinct (map fst (acc @ qs)) \<Longrightarrow>
   foldl (\<lambda>ps (k, x). AList.update k x ps) acc qs = acc @ qs"
proof (induction qs arbitrary: acc)
  case Nil
  then show ?case by simp
next
  case (Cons q qs)
  obtain k x where q: "q = (k, x)" by (cases q)
  from Cons.prems q have fresh: "k \<notin> fst ` set acc" by auto
  from Cons.prems q have "distinct (map fst ((acc @ [(k, x)]) @ qs))" by auto
  from Cons.IH[OF this] show ?case using q fresh by (simp add: update_fresh)
qed

lemma spread_JObj: "distinct (map fst ps) \<Longrightarrow> spread env [] (JObj ps) = ps"
  using foldl_update_distinct[of "[]" ps] by (simp add: spread_def)

lemma mapR_map: "(\<And>x. x \<in> set xs \<Longrightarrow> f x = Ok (g x)) \<Longrightarrow> mapR f xs = Ok (map g xs)"
  by (induction xs) auto

lemma foldr_max_ge: "x \<in> set xs \<Longrightarrow> f x \<le> foldr max (map f xs) (0::nat)"
  by (induction xs) (auto simp: max_def)

lemma foldr_max_le: "(\<And>x. x \<in> set xs \<Longrightarrow> f x \<le> (b::nat)) \<Longrightarrow> foldr max (map f xs) 0 \<le> b"
  by (induction xs) auto

lemma field_update_same: "field (AList.update k v ps) k = v"
  by (simp add: field_def AList.update_conv')

lemma field_update_other: "k' \<noteq> k \<Longrightarrow> field (AList.update k v ps) k' = field ps k'"
  by (simp add: field_def AList.update_conv')

lemma toArray_JArr: "toArray (JArr xs) = xs"
  by (simp add: toArray_def)




lemma node_at_ops [simp]: "node_at (s\<lparr>ops := x\<rparr>) n = node_at s n"
  by (simp add: node_at_def)

subsection \<open>Expansion of a tree without components\<close>

lemma componentFree_normal: "componentFree v \<Longrightarrow> componentFree (normal v)"
proof (induction v rule: componentFree.induct)
  case (1 xs)
  then show ?case by (simp add: list_all_iff)
next
  case (2 ps)
  then show ?case
    by (simp add: list_all_iff field_update_same field_update_other toArray_JArr AList.distinct_update)
qed simp_all

lemma depth_normal: "depth (normal v) \<le> depth v"
proof (induction v rule: componentFree.induct)
  case (1 xs)
  have "foldr max (map depth (map normal xs)) 0 \<le> foldr max (map depth xs) 0"
  proof (rule foldr_max_le)
    fix y assume "y \<in> set (map normal xs)"
    then obtain x where x: "x \<in> set xs" "y = normal x" by auto
    with 1 have "depth y \<le> depth x" by simp
    also have "\<dots> \<le> foldr max (map depth xs) 0" using x(1) by (rule foldr_max_ge)
    finally show "depth y \<le> foldr max (map depth xs) 0" .
  qed
  then show ?case by simp
next
  case (2 ps)
  let ?cs = "toArray (field ps ''children'')"
  have "foldr max (map depth (map normal ?cs)) 0 \<le> foldr max (map depth ?cs) 0"
  proof (rule foldr_max_le)
    fix y assume "y \<in> set (map normal ?cs)"
    then obtain x where x: "x \<in> set ?cs" "y = normal x" by auto
    with 2 have "depth y \<le> depth x" by simp
    also have "\<dots> \<le> foldr max (map depth ?cs) 0" using x(1) by (rule foldr_max_ge)
    finally show "depth y \<le> foldr max (map depth ?cs) 0" .
  qed
  then show ?case by (simp add: field_update_same toArray_JArr)
qed simp_all

lemma normal_idem: "normal (normal v) = normal v"
proof (induction v rule: componentFree.induct)
  case (1 xs)
  then show ?case by simp
next
  case (2 ps)
  then have eq: "map (normal \<circ> normal) (toArray (field ps ''children'')) =
                 map normal (toArray (field ps ''children''))"
    by simp
  show ?case by (simp add: field_update_same toArray_JArr eq)
qed simp_all

lemma expandTree_normal:
  "componentFree v \<Longrightarrow> depth v < n \<Longrightarrow> expandTree n env v = Ok (normal v)"
proof (induction v arbitrary: n rule: componentFree.induct)
  case (1 xs)
  from "1.prems" obtain m where n: "n = Suc m" by (cases n) auto
  have "mapR (\<lambda>child. expandTree m env child) xs = Ok (map normal xs)"
  proof (rule mapR_map)
    fix x assume x: "x \<in> set xs"
    have "depth x \<le> foldr max (map depth xs) 0" using x by (rule foldr_max_ge)
    with "1.prems" n have "depth x < m" by simp
    moreover from "1.prems" x have "componentFree x" by (simp add: list_all_iff)
    ultimately show "expandTree m env x = Ok (normal x)" using "1.IH" x by blast
  qed
  then show ?case
    by (simp add: n isEmptyNode_def isTextNode_def isFragmentNode_def elements_def)
next
  case (2 ps)
  let ?cs = "toArray (field ps ''children'')"
  from "2.prems" obtain m where n: "n = Suc m" by (cases n) auto
  have "mapR (\<lambda>child. expandTree m env child) ?cs = Ok (map normal ?cs)"
  proof (rule mapR_map)
    fix x assume x: "x \<in> set ?cs"
    have "depth x \<le> foldr max (map depth ?cs) 0" using x by (rule foldr_max_ge)
    with "2.prems" n have "depth x < m" by simp
    moreover from "2.prems" x have "componentFree x" by (simp add: list_all_iff)
    ultimately show "expandTree m env x = Ok (normal x)" using "2.IH" x by blast
  qed
  moreover from "2.prems" have "distinct (map fst ps)" "typeof (field ps ''type'') = ''string''"
    by simp_all
  ultimately show ?case
    by (simp add: n isEmptyNode_def isTextNode_def isFragmentNode_def isFunctionalComponentNode_def
        js_and_def get_JObj spread_JObj)
next
  case 5
  then show ?case by (cases n) (simp_all add: isEmptyNode_def)
next
  case 6
  then show ?case by (cases n) (simp_all add: isEmptyNode_def)
next
  case (7 b)
  then show ?case by (cases n) (simp_all add: isEmptyNode_def)
next
  case (8 i)
  then show ?case by (cases n) (simp_all add: isEmptyNode_def isTextNode_def)
next
  case (9 s)
  then show ?case by (cases n) (simp_all add: isEmptyNode_def isTextNode_def)
qed simp_all

subsection \<open>Array length\<close>

lemma show_nat_digits: "set (show_nat n) \<subseteq> set ''0123456789''"
proof (induction n rule: show_nat.induct)
  case (1 n)
  have d: "digit_char n \<in> set ''0123456789''"
    unfolding digit_char_def by (rule nth_mem) simp
  show ?case
  proof (cases "n < 10")
    case True
    then show ?thesis using d by (subst show_nat.simps) simp
  next
    case False
    then show ?thesis using d 1 by (subst show_nat.simps) simp
  qed
qed

lemma show_nat_not_length: "show_nat n \<noteq> ''length''"
proof
  assume "show_nat n = ''length''"
  then have "CHR ''l'' \<in> set (show_nat n)" by simp
  with show_nat_digits[of n] show False by auto
qed

lemma get_JArr_length: "get env (JArr xs) ''length'' = JNum (int (length xs))"
proof -
  have "''length'' \<notin> set (map show_nat [0..<length xs])"
    using show_nat_not_length by (metis (no_types) imageE list.set_map)
  then have none: "map_of (zip (map show_nat [0..<length xs]) xs) ''length'' = None"
    by simp
  show ?thesis by (simp add: get_def none)
qed

subsection \<open>Prop reconciliation leaves the nodes alone\<close>

lemma keeps_nodes_ret: "keeps_nodes (ret x)"
  by (simp add: keeps_nodes_def ret_def)

lemma keeps_nodes_liftR: "keeps_nodes (liftR r)"
  by (simp add: keeps_nodes_def liftR_def)

lemma keeps_nodes_log_op: "keeps_nodes (log_op op)"
  by (auto simp: keeps_nodes_def log_op_def)

lemma keeps_nodes_invoke: "keeps_nodes (invoke env recv m args)"
  by (auto simp: keeps_nodes_def invoke_def liftR_def split: jsval.splits)

lemma keeps_nodes_bindS:
  "keeps_nodes m \<Longrightarrow> (\<And>x. keeps_nodes (f x)) \<Longrightarrow> keeps_nodes (bindS m f)"
  unfolding keeps_nodes_def bindS_def
  by (auto split: prod.splits res.splits)

lemma keeps_nodes_forEach: "(\<And>x. keeps_nodes (f x)) \<Longrightarrow> keeps_nodes (forEach f xs)"
  by (induction xs) (simp_all add: keeps_nodes_ret keeps_nodes_bindS)

lemma keeps_nodes_removeElementProp: "keeps_nodes (removeElementProp env el key v)"
  using keeps_nodes_invoke[of env el] keeps_nodes_log_op
  by (auto simp: removeElementProp_def removeEventListener_def removeAttribute_def keeps_nodes_def
      split: jsval.splits option.splits if_splits)

lemma keeps_nodes_setElementProp: "keeps_nodes (setElementProp env el key v)"
  using keeps_nodes_invoke[of env el] keeps_nodes_log_op
  by (auto simp: setElementProp_def addEventListener_def setAttribute_def keeps_nodes_def
      split: jsval.splits option.splits if_splits)

lemma keeps_nodes_updateElementProps: "keeps_nodes (updateElementProps env el np pp)"
  unfolding updateElementProps_def Let_def
  by (intro keeps_nodes_bindS keeps_nodes_forEach)
     (simp_all add: keeps_nodes_ret keeps_nodes_liftR keeps_nodes_removeElementProp
        keeps_nodes_setElementProp keeps_nodes_bindS)

lemma updateElementProps_nodes:
  "updateElementProps env el np pp s = (r, s1) \<Longrightarrow> nodes s1 = nodes s"
  using keeps_nodes_updateElementProps[of env el np pp] by (simp add: keeps_nodes_def)

subsection \<open>Rendering into a function object\<close>

lemma bindS_not_Ok: "(\<And>s. \<forall>x. fst (m s) \<noteq> Ok x) \<Longrightarrow> fst (bindS m f s) \<noteq> Ok y"
  by (auto simp: bindS_def split: prod.splits res.splits) (metis fst_conv)

lemma appendChild_library_fails:
  "appendChild env (JFun RenderString) c s = (Err NotCallable, s)"
  by (simp add: appendChild_def invoke_def get_def liftR_def)

lemma render_library_not_Ok:
  "fst (render n env v (JFun RenderString) s) \<noteq> Ok r"
  by (auto simp: render_def bindS_def set_innerHTML_empty_def backRef_def appendChild_of_def
      appendChild_library_fails ret_def set_vnode_ref_def
      split: prod.splits res.splits)

subsection \<open>Rendering \<^verbatim>\<open>null\<close> and \<^verbatim>\<open>undefined\<close>\<close>

lemma forEach_append:
  "forEach f (xs @ ys) = bindS (forEach f xs) (\<lambda>_. forEach f ys)"
proof (induction xs)
  case Nil
  show ?case by (simp add: bindS_def ret_def)
next
  case (Cons x xs)
  show ?case
    by (auto simp: Cons bindS_def fun_eq_iff split: prod.splits res.splits)
qed

lemma renderElement_nullish:
  assumes "nullish c"
  shows "renderElement (Suc m) env c s =
     (Err NullDereference,
      s\<lparr>nodes := nodes s @ [\<lparr>nkind = CommentNode (''('' @ toString env c @ '')''),
                              childNodes = [], vnode_ref = Some c\<rparr>],
        ops := ops s @ [CreateComment (length (nodes s)) (''('' @ toString env c @ '')'')]\<rparr>)"
  using assms
  by (cases c)
     (simp_all add: bindS_def liftR_def isEmptyNode_def document_createComment_def new_node_def
        backRef_def set_prop_def set_vnode_ref_def)

section \<open>The claims\<close>

text \<open>
  C3. Each of \<^verbatim>\<open>null\<close>, \<^verbatim>\<open>undefined\<close>, \<^verbatim>\<open>true\<close>, \<^verbatim>\<open>false\<close>, \<^verbatim>\<open>0\<close>, \<^verbatim>\<open>""\<close> and \<^verbatim>\<open>"x"\<close> is
  accepted by exactly one of the five classifiers: the first four by \<^verbatim>\<open>isEmptyNode\<close>
  only, and \<^verbatim>\<open>0\<close>, \<^verbatim>\<open>""\<close> and \<^verbatim>\<open>"x"\<close> by \<^verbatim>\<open>isTextNode\<close> only. Each is a valid element.
\<close>

theorem classification_exactly_one:
  "kinds env JNull = [Empty] \<and> kinds env JUndefined = [Empty] \<and>
   kinds env (JBool True) = [Empty] \<and> kinds env (JBool False) = [Empty] \<and>
   kinds env (JNum 0) = [Text] \<and> kinds env (JStr []) = [Text] \<and>
   kinds env (JStr ''x'') = [Text] \<and>
   list_all (\<lambda>v. truthy (isValidElement env v))
     [JNull, JUndefined, JBool True, JBool False, JNum 0, JStr [], JStr ''x'']"
  by (simp add: kinds_def isEmptyNode_def isTextNode_def isHtmlNode_def isFragmentNode_def
      isFunctionalComponentNode_def isValidElement_def js_and_def js_or_def get_def
      show_nat.simps digit_char_def)

theorem classification_exactly_one_witness:
  "kinds demo_env JNull = [Empty] \<and> kinds demo_env JUndefined = [Empty] \<and>
   kinds demo_env (JBool True) = [Empty] \<and> kinds demo_env (JBool False) = [Empty] \<and>
   kinds demo_env (JNum 0) = [Text] \<and> kinds demo_env (JStr []) = [Text] \<and>
   kinds demo_env (JStr ''x'') = [Text]"
  using classification_exactly_one [of demo_env] by simp

text \<open>
  C10. The \<^verbatim>\<open>children\<close> field of the vnode that \<^verbatim>\<open>createElement\<close> returns is an array:
  the one-level flattening of the children arguments, the empty array when there
  are none. It is never \<^verbatim>\<open>null\<close>: the left operand of \<^verbatim>\<open>|| null\<close> is an array, which is
  truthy.
\<close>

theorem createElement_children_array:
  "get env (createElement type props children) ''children'' = JArr (concat1 children) \<and>
   get env (createElement type props []) ''children'' = JArr [] \<and>
   get env (createElement type props children) ''children'' \<noteq> JNull \<and>
   js_or (JArr (concat1 children)) JNull = JArr (concat1 children)"
  by (simp add: createElement_def get_def js_or_def concat1_def)

theorem createElement_children_array_witness:
  "get demo_env (createElement (JStr ''div'') JUndefined [JStr ''a'', JArr [JStr ''b'', JArr []]])
     ''children'' = JArr [JStr ''a'', JStr ''b'', JArr []] \<and>
   get demo_env (createElement (JStr ''div'') JUndefined []) ''children'' = JArr []"
  using createElement_children_array
    [of demo_env "JStr ''div''" JUndefined "[JStr ''a'', JArr [JStr ''b'', JArr []]]"]
  by (simp add: concat1_def)

text \<open>
  C4. Expansion is idempotent on a tree without components: with a recursion bound
  above the depth of the tree, \<^verbatim>\<open>expandTree\<close> returns a tree, and \<^verbatim>\<open>expandTree\<close> of
  that tree returns the same tree.
\<close>

theorem expandTree_idempotent:
  assumes "componentFree v" and "depth v < n"
  shows "\<exists>w. expandTree n env v = Ok w \<and> expandTree n env w = Ok w"
proof -
  have 1: "expandTree n env v = Ok (normal v)" using assms by (rule expandTree_normal)
  have "depth (normal v) < n" using depth_normal[of v] assms(2) by simp
  with componentFree_normal[OF assms(1)]
  have "expandTree n env (normal v) = Ok (normal (normal v))"
    by (rule expandTree_normal)
  then have "expandTree n env (normal v) = Ok (normal v)" by (simp add: normal_idem)
  with 1 show ?thesis by blast
qed

theorem expandTree_idempotent_witness:
  "componentFree sample_tree \<and> depth sample_tree < 3 \<and>
   (\<exists>w. expandTree 3 demo_env sample_tree = Ok w \<and> expandTree 3 demo_env w = Ok w)"
proof -
  have 1: "componentFree sample_tree"
    by (simp add: sample_tree_def field_def toArray_def)
  have 2: "depth sample_tree < 3"
    by (simp add: sample_tree_def field_def toArray_def)
  show ?thesis using 1 2 expandTree_idempotent [OF 1 2, of demo_env] by simp
qed




text \<open>
  C9, as amended. \<^verbatim>\<open>computeKey(child, i)\<close> returns \<^verbatim>\<open>child.props.key\<close> whenever that
  key is truthy. Otherwise, when the child has a truthy \<^verbatim>\<open>type\<close>, it returns the
  string made of the prefix \<^verbatim>\<open>__react__.\<close>, the type's \<^verbatim>\<open>name\<close> (or, when that is
  falsy, the type itself), a hyphen and the index. Otherwise it returns the string
  made of the prefix, \<^verbatim>\<open>typeof child\<close>, a hyphen and the index.
\<close>

theorem computeKey_cases:
  "(truthy (get env (get env vnode ''props'') ''key'') \<longrightarrow>
     computeKey env vnode i = get env (get env vnode ''props'') ''key'') \<and>
   (\<not> truthy (get env (get env vnode ''props'') ''key'') \<and> truthy (get env vnode ''type'') \<longrightarrow>
     computeKey env vnode i =
       JStr (''__react__.'' @
             toString env (js_or (get env (get env vnode ''type'') ''name'') (get env vnode ''type'')) @
             ''-'' @ show_nat i)) \<and>
   (\<not> truthy (get env (get env vnode ''props'') ''key'') \<and> \<not> truthy (get env vnode ''type'') \<longrightarrow>
     computeKey env vnode i = JStr (''__react__.'' @ typeof vnode @ ''-'' @ show_nat i))"
  using falsy_get[of vnode env "''props''"] falsy_get[of "get env vnode ''props''" env "''key''"]
    falsy_get[of vnode env "''type''"]
  by (auto simp: computeKey_def Let_def)

theorem computeKey_cases_witness:
  "computeKey demo_env keyed_k 0 = JStr ''k'' \<and>
   computeKey demo_env (createElement (JStr ''div'') JNull []) 2 = JStr ''__react__.div-2'' \<and>
   computeKey demo_env (createElement (JFun (Caller 0)) JNull []) 10 = JStr ''__react__.App-10'' \<and>
   computeKey demo_env (JStr ''x'') 12 = JStr ''__react__.string-12''"
  using computeKey_cases [of demo_env keyed_k 0]
    computeKey_cases [of demo_env "createElement (JStr ''div'') JNull []" 2]
    computeKey_cases [of demo_env "createElement (JFun (Caller 0)) JNull []" 10]
    computeKey_cases [of demo_env "JStr ''x''" 12]
  by (simp add: keyed_k_def createElement_def get_def js_or_def show_nat.simps digit_char_def demo_env_def)

text \<open>
  The claim as stated fails for a key that is present and falsy: with \<^verbatim>\<open>key: 0\<close> the
  generated key is returned, not \<^verbatim>\<open>0\<close>.
\<close>

theorem computeKey_falsy_key_counterexample:
  "has_own demo_env (get demo_env keyed_zero ''props'') ''key'' \<and>
   get demo_env (get demo_env keyed_zero ''props'') ''key'' = JNum 0 \<and>
   computeKey demo_env keyed_zero 0 = JStr ''__react__.li-0''"
  by (simp add: keyed_zero_def createElement_def get_def js_or_def has_own_def own_keys_def
      computeKey_def show_nat.simps digit_char_def)

text \<open>
  C8. On any target node, with previous props \<^verbatim>\<open>{onClick: f}\<close> and next props
  \<^verbatim>\<open>{onClick: g}\<close>, \<^verbatim>\<open>updateElementProps\<close> makes exactly two calls on the DOM when
  \<open>f\<close> and \<open>g\<close> are not identical, \<^verbatim>\<open>removeEventListener("click", f)\<close> and then
  \<^verbatim>\<open>addEventListener("click", g)\<close>, and no call at all when they are identical.
\<close>

theorem listener_swap:
  assumes "node_at s e = Some nd"
  shows "(\<not> strict_equal f g \<longrightarrow>
           updateElementProps env (JNode e) (JObj [(''onClick'', g)]) (JObj [(''onClick'', f)]) s =
             (Ok JUndefined,
              s\<lparr>ops := ops s @ [RemoveEventListener e ''click'' f, AddEventListener e ''click'' g]\<rparr>)) \<and>
         (strict_equal f g \<longrightarrow>
           updateElementProps env (JNode e) (JObj [(''onClick'', g)]) (JObj [(''onClick'', f)]) s =
             (Ok JUndefined, s))"
  using assms
  by (simp add: updateElementProps_def js_or_def Let_def own_keys_def has_own_def get_def bindS_def
      ret_def removeElementProp_def setElementProp_def isEventListener_def getListenerName_def
      lower_char_def removeEventListener_def addEventListener_def log_op_def)

theorem listener_swap_witness:
  "node_at fresh_store 0 = Some \<lparr>nkind = ElementNode ''div'', childNodes = [], vnode_ref = None\<rparr> \<and>
   updateElementProps demo_env (JNode 0) (JObj [(''onClick'', JFun (Caller 4))])
       (JObj [(''onClick'', JFun (Caller 3))]) fresh_store =
     (Ok JUndefined,
      fresh_store\<lparr>ops := [RemoveEventListener 0 ''click'' (JFun (Caller 3)),
                          AddEventListener 0 ''click'' (JFun (Caller 4))]\<rparr>) \<and>
   updateElementProps demo_env (JNode 0) (JObj [(''onClick'', JFun (Caller 3))])
       (JObj [(''onClick'', JFun (Caller 3))]) fresh_store = (Ok JUndefined, fresh_store)"
proof -
  have 1: "node_at fresh_store 0 = Some \<lparr>nkind = ElementNode ''div'', childNodes = [], vnode_ref = None\<rparr>"
    by (simp add: node_at_def fresh_store_def)
  show ?thesis
    using 1 listener_swap [OF 1, of "JFun (Caller 3)" "JFun (Caller 4)" demo_env]
      listener_swap [OF 1, of "JFun (Caller 3)" "JFun (Caller 3)" demo_env]
    by (simp add: strict_equal_def fresh_store_def)
qed

text \<open>
  C1, as amended. On a container that was never rendered into, \<^verbatim>\<open>update\<close> throws the
  TypeError of reading a property of \<^verbatim>\<open>undefined\<close>: \<^verbatim>\<open>node.childNodes[0].__vnode\<close> when the
  container has no child, \<^verbatim>\<open>prevTree.__ref\<close> when its first child carries no vnode.
  Nothing is changed before the exception, and \<^verbatim>\<open>update\<close> does not return normally.
\<close>

theorem update_never_rendered:
  assumes "never_rendered s c"
  shows "update (Suc n) env (JNode c) s = (Err NullDereference, s)"
proof -
  from assms obtain nd where nd: "node_at s c = Some nd" "vnode_ref nd = None"
    by (auto simp: never_rendered_def split: option.splits)
  show ?thesis
  proof (cases "childNodes nd")
    case Nil
    with nd show ?thesis
      by (simp add: update_def bindS_def readS_def childNodes_0_def get_vnode_ref_def get_prop_def)
  next
    case (Cons k ks)
    with assms nd obtain kd where kd: "node_at s k = Some kd" "vnode_ref kd = None"
      by (auto simp: never_rendered_def split: option.splits)
    with nd Cons show ?thesis
      by (simp add: update_def bindS_def readS_def liftR_def childNodes_0_def get_vnode_ref_def
          get_prop_def isEmptyNode_def)
  qed
qed

theorem update_never_rendered_witness:
  "never_rendered static_store 0 \<and>
   update 1 demo_env (JNode 0) static_store = (Err NullDereference, static_store)"
proof -
  have 1: "never_rendered static_store 0"
    by (simp add: never_rendered_def static_store_def node_at_def)
  show ?thesis using 1 update_never_rendered [OF 1, of 0 demo_env] by simp
qed

text \<open>
  The claim as stated says that the error is a precondition error of its own and not
  a null dereference; on a fresh container it is the null dereference.
\<close>

theorem update_fresh_container_counterexample:
  "never_rendered fresh_store 0 \<and>
   update 1 demo_env (JNode 0) fresh_store = (Err NullDereference, fresh_store)"
  by (simp add: never_rendered_def fresh_store_def node_at_def update_def bindS_def readS_def
      childNodes_0_def get_vnode_ref_def get_prop_def)

text \<open>
  C7. On a container with a rendered child, when the expansion of the container's
  vnode ends in an exception, \<^verbatim>\<open>update\<close> ends in that same exception and the store
  (the nodes, their children, and the sequence of calls made on the DOM) is as it
  was.
\<close>

theorem update_atomic_on_expansion_failure:
  assumes "node_at s c = Some nd" and "childNodes nd = k # ks"
    and "get_vnode_ref env (JNode c) s = Ok root"
    and "expandTree n env root = Err e"
  shows "update n env (JNode c) s = (Err e, s)"
  using assms
  by (simp add: update_def bindS_def readS_def childNodes_0_def get_vnode_ref_def liftR_def
      split: option.splits)

theorem update_atomic_on_expansion_failure_witness:
  "expandTree 3 demo_env (JObj [(''type'', JFun (Caller 1)), (''props'', JNull),
                                (''children'', JArr []), (''__ref'', JNode 0)]) =
     Err (Thrown (JStr ''boom'')) \<and>
   update 3 demo_env (JNode 0) (rendered_store (Caller 1) JNull) =
     (Err (Thrown (JStr ''boom'')), rendered_store (Caller 1) JNull)"
proof -
  let ?root = "JObj [(''type'', JFun (Caller 1)), (''props'', JNull),
                     (''children'', JArr []), (''__ref'', JNode 0)]"
  let ?s = "rendered_store (Caller 1) JNull"
  have 1: "node_at ?s 0 = Some \<lparr>nkind = ElementNode ''div'', childNodes = [1], vnode_ref = Some ?root\<rparr>"
    by (simp add: node_at_def rendered_store_def)
  have 2: "childNodes \<lparr>nkind = ElementNode ''div'', childNodes = [1], vnode_ref = Some ?root\<rparr> = 1 # []"
    by simp
  have 3: "get_vnode_ref demo_env (JNode 0) ?s = Ok ?root"
    using 1 by (simp add: get_vnode_ref_def)
  have 4: "expandTree 3 demo_env ?root = Err (Thrown (JStr ''boom''))"
    by (simp add: numeral_3_eq_3 isEmptyNode_def isTextNode_def isFragmentNode_def
        isFunctionalComponentNode_def js_and_def get_def getComponentProps_def get_prop_def
        call_value_def demo_env_def js_or_def spread_def)
  show ?thesis using 4 update_atomic_on_expansion_failure [OF 1 2 3 4] by simp
qed

text \<open>
  What \<^verbatim>\<open>update\<close> does once it has got as far as the child lists: the container's
  first child holds the previous tree, the container's vnode expands to the next
  tree, the target \<^verbatim>\<open>prevTree.__ref\<close> is an element, prop reconciliation on it has
  ended normally in the store \<open>s1\<close>, and both \<^verbatim>\<open>children\<close> are arrays. When both
  arrays are empty \<^verbatim>\<open>update\<close> ends in \<open>s1\<close>; when only the next one is empty it clears
  the children of the target, and does nothing else; when only the previous one is
  empty it runs the loop of line 314 from \<open>s1\<close>; and when neither is empty it ends
  in \<open>s1\<close>: no node and no call on the DOM is added.
\<close>

lemma update_child_cases:
  assumes "node_at s c = Some nd" and "childNodes nd = k # ks"
    and "get_vnode_ref env (JNode k) s = Ok prevTree"
    and "get_vnode_ref env (JNode c) s = Ok root"
    and "expandTree n env root = Ok nextTree"
    and "\<not> nullish prevTree" and "\<not> nullish nextTree"
    and "get env prevTree ''__ref'' = JNode e" and "is_element s e"
    and "updateElementProps env (JNode e) (get env nextTree ''props'') (get env prevTree ''props'') s
           = (Ok r, s1)"
    and "get env prevTree ''children'' = JArr prevChildren"
    and "get env nextTree ''children'' = JArr nextChildren"
  shows "update n env (JNode c) s =
           (if prevChildren = [] \<and> nextChildren = [] then (Ok JUndefined, s1)
            else if prevChildren \<noteq> [] \<and> nextChildren = [] then
              (Ok JUndefined,
               s1\<lparr>nodes := (nodes s1)[e := (nodes s1 ! e)\<lparr>childNodes := []\<rparr>],
                  ops := ops s1 @ [ClearChildren e]\<rparr>)
            else if prevChildren = [] \<and> nextChildren \<noteq> [] then
              bindS (forEach (\<lambda>child. appendChild_of env (JNode e) (renderElement n env child))
                       nextChildren) (\<lambda>_. ret JUndefined) s1
            else (Ok JUndefined, s1))"
proof -
  have el: "is_element s1 e"
    using assms(9) updateElementProps_nodes[OF assms(10)]
    by (simp add: is_element_def node_at_def split: if_splits)
  have pre: "update n env (JNode c) s =
      (if \<not> truthy (JNum (int (length prevChildren))) \<and> \<not> truthy (JNum (int (length nextChildren)))
       then ret JUndefined
       else if truthy (JNum (int (length prevChildren))) \<and> \<not> truthy (JNum (int (length nextChildren)))
       then bindS (set_innerHTML_empty (JNode e)) (\<lambda>_. ret JUndefined)
       else if \<not> truthy (JNum (int (length prevChildren))) \<and> truthy (JNum (int (length nextChildren)))
       then bindS (js_forEach (JArr nextChildren)
                     (\<lambda>child. appendChild_of env (JNode e) (renderElement n env child)))
              (\<lambda>_. ret JUndefined)
       else ret JUndefined) s1"
    using assms
    by (simp add: update_def bindS_def readS_def liftR_def childNodes_0_def get_prop_def
        get_JArr_length)
  show ?thesis
    unfolding pre using el
    by (simp add: ret_def bindS_def set_innerHTML_empty_def log_op_def set_children_def
        js_forEach_def)
qed

text \<open>
  Three runs with the component \<^verbatim>\<open>App\<close>: text children appended to an empty \<^verbatim>\<open>div\<close>, the
  children of a \<^verbatim>\<open>div\<close> cleared, and a \<^verbatim>\<open>div\<close> with an old child left as it is although
  the next children differ.
\<close>

lemma update_child_scenarios:
  "update 3 demo_env (JNode 0) (rendered_store (Caller 0) (items [JStr ''a'', JStr ''b''])) =
     (Ok JUndefined,
      \<lparr>nodes = [\<lparr>nkind = ElementNode ''div'', childNodes = [1],
                  vnode_ref = Some (app_vnode [JStr ''a'', JStr ''b''])\<rparr>,
                \<lparr>nkind = ElementNode ''div'', childNodes = [2, 3], vnode_ref = Some (old_div [])\<rparr>,
                \<lparr>nkind = TextNode ''a'', childNodes = [], vnode_ref = Some (JStr ''a'')\<rparr>,
                \<lparr>nkind = TextNode ''b'', childNodes = [], vnode_ref = Some (JStr ''b'')\<rparr>],
       ops = [CreateTextNode 2 ''a'', AppendChild 1 2, CreateTextNode 3 ''b'', AppendChild 1 3]\<rparr>) \<and>
   update 3 demo_env (JNode 0) (rendered_store1 (Caller 0) (items [])) =
     (Ok JUndefined,
      \<lparr>nodes = [\<lparr>nkind = ElementNode ''div'', childNodes = [1], vnode_ref = Some (app_vnode [])\<rparr>,
                \<lparr>nkind = ElementNode ''div'', childNodes = [],
                  vnode_ref = Some (old_div [JStr ''old''])\<rparr>,
                \<lparr>nkind = TextNode ''old'', childNodes = [], vnode_ref = Some (JStr ''old'')\<rparr>],
       ops = [ClearChildren 1]\<rparr>) \<and>
   update 3 demo_env (JNode 0) (rendered_store1 (Caller 0) (items [JStr ''a'', JStr ''b''])) =
     (Ok JUndefined, rendered_store1 (Caller 0) (items [JStr ''a'', JStr ''b'']))"
proof -
  let ?ab = "[JStr ''a'', JStr ''b'']"
  have append: "update 3 demo_env (JNode 0) (rendered_store (Caller 0) (items ?ab)) =
     (Ok JUndefined,
      \<lparr>nodes = [\<lparr>nkind = ElementNode ''div'', childNodes = [1], vnode_ref = Some (app_vnode ?ab)\<rparr>,
                \<lparr>nkind = ElementNode ''div'', childNodes = [2, 3], vnode_ref = Some (old_div [])\<rparr>,
                \<lparr>nkind = TextNode ''a'', childNodes = [], vnode_ref = Some (JStr ''a'')\<rparr>,
                \<lparr>nkind = TextNode ''b'', childNodes = [], vnode_ref = Some (JStr ''b'')\<rparr>],
       ops = [CreateTextNode 2 ''a'', AppendChild 1 2, CreateTextNode 3 ''b'', AppendChild 1 3]\<rparr>)"
  proof -
    let ?s = "rendered_store (Caller 0) (items ?ab)"
    let ?nd = "\<lparr>nkind = ElementNode ''div'', childNodes = [1], vnode_ref = Some (app_vnode ?ab)\<rparr>"
    have 1: "node_at ?s 0 = Some ?nd" by code_simp
    have 2: "childNodes ?nd = 1 # []" by simp
    have 3: "get_vnode_ref demo_env (JNode 1) ?s = Ok (old_div [])" by code_simp
    have 4: "get_vnode_ref demo_env (JNode 0) ?s = Ok (app_vnode ?ab)" by code_simp
    have 5: "expandTree 3 demo_env (app_vnode ?ab) = Ok (new_div ?ab)" by code_simp
    have 6: "\<not> nullish (old_div [])" by (simp add: old_div_def)
    have 7: "\<not> nullish (new_div ?ab)" by (simp add: new_div_def)
    have 8: "get demo_env (old_div []) ''__ref'' = JNode 1" by code_simp
    have 9: "is_element ?s 1" by code_simp
    have 10: "updateElementProps demo_env (JNode 1) (get demo_env (new_div ?ab) ''props'')
                (get demo_env (old_div []) ''props'') ?s = (Ok JUndefined, ?s)" by code_simp
    have 11: "get demo_env (old_div []) ''children'' = JArr []" by code_simp
    have 12: "get demo_env (new_div ?ab) ''children'' = JArr ?ab" by code_simp
    have rhs: "bindS (forEach (\<lambda>child. appendChild_of demo_env (JNode 1) (renderElement 3 demo_env child))
                        ?ab) (\<lambda>_. ret JUndefined) ?s =
     (Ok JUndefined,
      \<lparr>nodes = [\<lparr>nkind = ElementNode ''div'', childNodes = [1], vnode_ref = Some (app_vnode ?ab)\<rparr>,
                \<lparr>nkind = ElementNode ''div'', childNodes = [2, 3], vnode_ref = Some (old_div [])\<rparr>,
                \<lparr>nkind = TextNode ''a'', childNodes = [], vnode_ref = Some (JStr ''a'')\<rparr>,
                \<lparr>nkind = TextNode ''b'', childNodes = [], vnode_ref = Some (JStr ''b'')\<rparr>],
       ops = [CreateTextNode 2 ''a'', AppendChild 1 2, CreateTextNode 3 ''b'', AppendChild 1 3]\<rparr>)"
      by code_simp
    show ?thesis using update_child_cases [OF 1 2 3 4 5 6 7 8 9 10 11 12] rhs by simp
  qed
  have clear: "update 3 demo_env (JNode 0) (rendered_store1 (Caller 0) (items [])) =
     (Ok JUndefined,
      \<lparr>nodes = [\<lparr>nkind = ElementNode ''div'', childNodes = [1], vnode_ref = Some (app_vnode [])\<rparr>,
                \<lparr>nkind = ElementNode ''div'', childNodes = [],
                  vnode_ref = Some (old_div [JStr ''old''])\<rparr>,
                \<lparr>nkind = TextNode ''old'', childNodes = [], vnode_ref = Some (JStr ''old'')\<rparr>],
       ops = [ClearChildren 1]\<rparr>)"
  proof -
    let ?s = "rendered_store1 (Caller 0) (items [])"
    let ?nd = "\<lparr>nkind = ElementNode ''div'', childNodes = [1], vnode_ref = Some (app_vnode [])\<rparr>"
    have 1: "node_at ?s 0 = Some ?nd" by code_simp
    have 2: "childNodes ?nd = 1 # []" by simp
    have 3: "get_vnode_ref demo_env (JNode 1) ?s = Ok (old_div [JStr ''old''])" by code_simp
    have 4: "get_vnode_ref demo_env (JNode 0) ?s = Ok (app_vnode [])" by code_simp
    have 5: "expandTree 3 demo_env (app_vnode []) = Ok (new_div [])" by code_simp
    have 6: "\<not> nullish (old_div [JStr ''old''])" by (simp add: old_div_def)
    have 7: "\<not> nullish (new_div [])" by (simp add: new_div_def)
    have 8: "get demo_env (old_div [JStr ''old'']) ''__ref'' = JNode 1" by code_simp
    have 9: "is_element ?s 1" by code_simp
    have 10: "updateElementProps demo_env (JNode 1) (get demo_env (new_div []) ''props'')
                (get demo_env (old_div [JStr ''old'']) ''props'') ?s = (Ok JUndefined, ?s)" by code_simp
    have 11: "get demo_env (old_div [JStr ''old'']) ''children'' = JArr [JStr ''old'']" by code_simp
    have 12: "get demo_env (new_div []) ''children'' = JArr []" by code_simp
    have rhs: "?s\<lparr>nodes := (nodes ?s)[1 := (nodes ?s ! 1)\<lparr>childNodes := []\<rparr>],
                 ops := ops ?s @ [ClearChildren 1]\<rparr> =
      \<lparr>nodes = [\<lparr>nkind = ElementNode ''div'', childNodes = [1], vnode_ref = Some (app_vnode [])\<rparr>,
                \<lparr>nkind = ElementNode ''div'', childNodes = [],
                  vnode_ref = Some (old_div [JStr ''old''])\<rparr>,
                \<lparr>nkind = TextNode ''old'', childNodes = [], vnode_ref = Some (JStr ''old'')\<rparr>],
       ops = [ClearChildren 1]\<rparr>"
      by code_simp
    show ?thesis using update_child_cases [OF 1 2 3 4 5 6 7 8 9 10 11 12] rhs by simp
  qed
  have nodiff: "update 3 demo_env (JNode 0) (rendered_store1 (Caller 0) (items ?ab)) =
     (Ok JUndefined, rendered_store1 (Caller 0) (items ?ab))"
  proof -
    let ?s = "rendered_store1 (Caller 0) (items ?ab)"
    let ?nd = "\<lparr>nkind = ElementNode ''div'', childNodes = [1], vnode_ref = Some (app_vnode ?ab)\<rparr>"
    have 1: "node_at ?s 0 = Some ?nd" by code_simp
    have 2: "childNodes ?nd = 1 # []" by simp
    have 3: "get_vnode_ref demo_env (JNode 1) ?s = Ok (old_div [JStr ''old''])" by code_simp
    have 4: "get_vnode_ref demo_env (JNode 0) ?s = Ok (app_vnode ?ab)" by code_simp
    have 5: "expandTree 3 demo_env (app_vnode ?ab) = Ok (new_div ?ab)" by code_simp
    have 6: "\<not> nullish (old_div [JStr ''old''])" by (simp add: old_div_def)
    have 7: "\<not> nullish (new_div ?ab)" by (simp add: new_div_def)
    have 8: "get demo_env (old_div [JStr ''old'']) ''__ref'' = JNode 1" by code_simp
    have 9: "is_element ?s 1" by code_simp
    have 10: "updateElementProps demo_env (JNode 1) (get demo_env (new_div ?ab) ''props'')
                (get demo_env (old_div [JStr ''old'']) ''props'') ?s = (Ok JUndefined, ?s)" by code_simp
    have 11: "get demo_env (old_div [JStr ''old'']) ''children'' = JArr [JStr ''old'']" by code_simp
    have 12: "get demo_env (new_div ?ab) ''children'' = JArr ?ab" by code_simp
    show ?thesis using update_child_cases [OF 1 2 3 4 5 6 7 8 9 10 11 12] by simp
  qed
  show ?thesis using append clear nodiff by blast
qed

text \<open>
  C6. The insertion case does not hold of the code when a next child is \<^verbatim>\<open>null\<close> or
  \<^verbatim>\<open>undefined\<close>. The children before it are rendered and appended; for the child
  itself \<^verbatim>\<open>renderElement\<close> creates the comment node ("null and booleans are just
  comments") and \<^verbatim>\<open>backRef\<close> then assigns \<^verbatim>\<open>vnode.__ref\<close> on \<^verbatim>\<open>null\<close>, a TypeError; the
  comment is never appended, and the children after it are never rendered.
\<close>

theorem update_null_child_throws:
  assumes "node_at s c = Some nd" and "childNodes nd = k # ks"
    and "get_vnode_ref env (JNode k) s = Ok prevTree"
    and "get_vnode_ref env (JNode c) s = Ok root"
    and "expandTree (Suc m) env root = Ok nextTree"
    and "\<not> nullish prevTree" and "\<not> nullish nextTree"
    and "get env prevTree ''__ref'' = JNode e" and "is_element s e"
    and "updateElementProps env (JNode e) (get env nextTree ''props'') (get env prevTree ''props'') s
           = (Ok r, s1)"
    and "get env prevTree ''children'' = JArr []"
    and "get env nextTree ''children'' = JArr (before @ child # after)"
    and "nullish child"
    and "forEach (\<lambda>x. appendChild_of env (JNode e) (renderElement (Suc m) env x)) before s1
           = (Ok r', s2)"
  shows "update (Suc m) env (JNode c) s =
     (Err NullDereference,
      s2\<lparr>nodes := nodes s2 @ [\<lparr>nkind = CommentNode (''('' @ toString env child @ '')''),
                                childNodes = [], vnode_ref = Some child\<rparr>],
         ops := ops s2 @ [CreateComment (length (nodes s2)) (''('' @ toString env child @ '')'')]\<rparr>)"
proof -
  let ?f = "\<lambda>x. appendChild_of env (JNode e) (renderElement (Suc m) env x)"
  have "update (Suc m) env (JNode c) s =
          bindS (forEach ?f (before @ child # after)) (\<lambda>_. ret JUndefined) s1"
    using update_child_cases [OF assms(1-12)] by simp
  moreover have "?f child s2 = (Err NullDereference,
      s2\<lparr>nodes := nodes s2 @ [\<lparr>nkind = CommentNode (''('' @ toString env child @ '')''),
                                childNodes = [], vnode_ref = Some child\<rparr>],
         ops := ops s2 @ [CreateComment (length (nodes s2)) (''('' @ toString env child @ '')'')]\<rparr>)"
    by (simp add: appendChild_of_def bindS_def renderElement_nullish [OF assms(13)]
        del: renderElement.simps)
  ultimately show ?thesis
    using assms(14) by (simp add: forEach_append bindS_def)
qed

theorem update_null_child_throws_witness:
  "update 3 demo_env (JNode 0) (rendered_store (Caller 0) (items [JStr ''a'', JNull, JStr ''b''])) =
     (Err NullDereference,
      \<lparr>nodes = [\<lparr>nkind = ElementNode ''div'', childNodes = [1],
                  vnode_ref = Some (app_vnode [JStr ''a'', JNull, JStr ''b''])\<rparr>,
                \<lparr>nkind = ElementNode ''div'', childNodes = [2], vnode_ref = Some (old_div [])\<rparr>,
                \<lparr>nkind = TextNode ''a'', childNodes = [], vnode_ref = Some (JStr ''a'')\<rparr>,
                \<lparr>nkind = CommentNode ''(null)'', childNodes = [], vnode_ref = Some JNull\<rparr>],
       ops = [CreateTextNode 2 ''a'', AppendChild 1 2, CreateComment 3 ''(null)'']\<rparr>)"
proof -
  let ?xs = "[JStr ''a'', JNull, JStr ''b'']"
  let ?s = "rendered_store (Caller 0) (items ?xs)"
  let ?nd = "\<lparr>nkind = ElementNode ''div'', childNodes = [1], vnode_ref = Some (app_vnode ?xs)\<rparr>"
  let ?s2 = "\<lparr>nodes = [\<lparr>nkind = ElementNode ''div'', childNodes = [1],
                         vnode_ref = Some (app_vnode ?xs)\<rparr>,
                       \<lparr>nkind = ElementNode ''div'', childNodes = [2], vnode_ref = Some (old_div [])\<rparr>,
                       \<lparr>nkind = TextNode ''a'', childNodes = [], vnode_ref = Some (JStr ''a'')\<rparr>],
              ops = [CreateTextNode 2 ''a'', AppendChild 1 2]\<rparr>"
  have 1: "node_at ?s 0 = Some ?nd" by code_simp
  have 2: "childNodes ?nd = 1 # []" by simp
  have 3: "get_vnode_ref demo_env (JNode 1) ?s = Ok (old_div [])" by code_simp
  have 4: "get_vnode_ref demo_env (JNode 0) ?s = Ok (app_vnode ?xs)" by code_simp
  have 5: "expandTree (Suc 2) demo_env (app_vnode ?xs) = Ok (new_div ?xs)" by code_simp
  have 6: "\<not> nullish (old_div [])" by (simp add: old_div_def)
  have 7: "\<not> nullish (new_div ?xs)" by (simp add: new_div_def)
  have 8: "get demo_env (old_div []) ''__ref'' = JNode 1" by code_simp
  have 9: "is_element ?s 1" by code_simp
  have 10: "updateElementProps demo_env (JNode 1) (get demo_env (new_div ?xs) ''props'')
              (get demo_env (old_div []) ''props'') ?s = (Ok JUndefined, ?s)" by code_simp
  have 11: "get demo_env (old_div []) ''children'' = JArr []" by code_simp
  have 12: "get demo_env (new_div ?xs) ''children'' = JArr ([JStr ''a''] @ JNull # [JStr ''b''])"
    by code_simp
  have 13: "nullish JNull" by simp
  have 14: "forEach (\<lambda>x. appendChild_of demo_env (JNode 1) (renderElement (Suc 2) demo_env x))
              [JStr ''a''] ?s = (Ok JUndefined, ?s2)"
    by code_simp
  have rhs: "?s2\<lparr>nodes := nodes ?s2 @ [\<lparr>nkind = CommentNode (''('' @ toString demo_env JNull @ '')''),
                                        childNodes = [], vnode_ref = Some JNull\<rparr>],
                 ops := ops ?s2 @ [CreateComment (length (nodes ?s2))
                                     (''('' @ toString demo_env JNull @ '')'')]\<rparr> =
      \<lparr>nodes = [\<lparr>nkind = ElementNode ''div'', childNodes = [1],
                  vnode_ref = Some (app_vnode ?xs)\<rparr>,
                \<lparr>nkind = ElementNode ''div'', childNodes = [2], vnode_ref = Some (old_div [])\<rparr>,
                \<lparr>nkind = TextNode ''a'', childNodes = [], vnode_ref = Some (JStr ''a'')\<rparr>,
                \<lparr>nkind = CommentNode ''(null)'', childNodes = [], vnode_ref = Some JNull\<rparr>],
       ops = [CreateTextNode 2 ''a'', AppendChild 1 2, CreateComment 3 ''(null)'']\<rparr>"
    by code_simp
  have "update (Suc 2) demo_env (JNode 0) ?s =
          (Err NullDereference,
           ?s2\<lparr>nodes := nodes ?s2 @ [\<lparr>nkind = CommentNode (''('' @ toString demo_env JNull @ '')''),
                                        childNodes = [], vnode_ref = Some JNull\<rparr>],
                 ops := ops ?s2 @ [CreateComment (length (nodes ?s2))
                                     (''('' @ toString demo_env JNull @ '')'')]\<rparr>)"
    by (rule update_null_child_throws [OF 1 2 3 4 5 6 7 8 9 10 11 12 13 14])
  then show ?thesis unfolding rhs by (simp add: numeral_3_eq_3 [symmetric] del: One_nat_def)
qed

text \<open>
  C2, for the record of what the code does. For a fragment with at least one member
  \<^verbatim>\<open>renderString\<close> never returns: each member is passed to
  \<^verbatim>\<open>render(e, renderString)\<close>, which ends by calling \<^verbatim>\<open>renderString.appendChild\<close>, and a
  function object has no such method. (The branch for the children of an element
  calls \<^verbatim>\<open>renderString(child)\<close>.)
\<close>

theorem renderString_fragment_throws:
  assumes "xs \<noteq> []"
  shows "fst (renderString n env (JArr xs) s) \<noteq> Ok v"
proof (cases n)
  case 0
  then show ?thesis by (simp add: liftR_def)
next
  case (Suc m)
  from assms obtain y ys where xs: "xs = y # ys" by (cases xs) auto
  have "fst (mapS (\<lambda>e. render m env e (JFun RenderString)) (y # ys) s') \<noteq> Ok rs"
    for s' rs
    unfolding mapS.simps by (rule bindS_not_Ok) (simp add: render_library_not_Ok)
  then have "fst (bindS (mapS (\<lambda>e. render m env e (JFun RenderString)) (y # ys))
                    (\<lambda>rs. ret (JStr (js_join env newline rs))) s) \<noteq> Ok v"
    by (intro bindS_not_Ok) simp
  then show ?thesis
    by (simp add: Suc xs bindS_def liftR_def isEmptyNode_def isTextNode_def isFragmentNode_def
        elements_def)
qed

theorem renderString_fragment_throws_witness:
  "[JStr ''a'', JStr ''b''] \<noteq> [] \<and>
   fst (renderString 3 demo_env (JArr [JStr ''a'', JStr ''b'']) fresh_store) \<noteq> Ok (JStr (''a'' @ newline @ ''b'')) \<and>
   fst (renderString 3 demo_env (JArr [JStr ''a'', JStr ''b'']) fresh_store) = Err NotCallable"
proof -
  have 1: "[JStr ''a'', JStr ''b''] \<noteq> []" by simp
  have 2: "fst (renderString 3 demo_env (JArr [JStr ''a'', JStr ''b'']) fresh_store) = Err NotCallable"
    by code_simp
  show ?thesis
    using 1 2 renderString_fragment_throws [OF 1, of 3 demo_env fresh_store "JStr (''a'' @ newline @ ''b'')"]
    by blast
qed

end
